theory Spec2Isabelle
  imports Complex_Main "HOL-Library.Word" "HOL-Library.Monad_Syntax"
begin

unbundle bit_operations_syntax

section \<open>Errors and bytes\<close>

text \<open>
  The module is Python 2 code (\<^verbatim>\<open>array.array('c')\<close>, \<^verbatim>\<open>ord(data[3])\<close>,
  the implicit relative \<^verbatim>\<open>import errors\<close>).  A record's raw data is a sequence of
  bytes; Python integers are unbounded and are modelled by \<open>int\<close>.  Python's float
  arithmetic is a parameter of the analog conversion (see below).

  Every exception the code can raise is a value of \<open>error\<close>.  The text of a
  \<^verbatim>\<open>DecodingError\<close> is modelled by a constructor of \<open>decoding_msg\<close> holding the
  formatted argument.
\<close>

type_synonym byte = "8 word"

datatype decoding_msg =
    Unsupported_SDR_type int   \<comment> \<open>\<^verbatim>\<open>'Unsupported SDR type(0x%02x)' % sdr_type\<close>\<close>
  | Invalid_SDR_length nat     \<comment> \<open>\<^verbatim>\<open>'Invalid SDR length (%d)' % len(data)\<close>\<close>
  | unknown_linearization int  \<comment> \<open>\<^verbatim>\<open>'unknown linearization %d' % linearization\<close>\<close>
  | Data_too_short             \<comment> \<open>the byte cursor ran out of bytes\<close>

datatype error =
    DecodingError decoding_msg
  | CompletionCodeError int
  | RetryError
  | NotImplementedError
  | ValueError
  | ZeroDivisionError
  | OverflowError
  | TypeError
  | AttributeError
  | IndexError
  | TransportError   \<comment> \<open>\<^verbatim>\<open>send_message\<close> itself raised: the port gave no response\<close>

section \<open>The analog part of a full sensor record\<close>

text \<open>
  The attributes of \<^verbatim>\<open>SdrFullSensorRecord\<close> that \<^verbatim>\<open>from_data\<close> sets.  The dictionaries
  \<^verbatim>\<open>threshold\<close> and \<^verbatim>\<open>hysteresis\<close> are maps from their string keys.
\<close>

record sdr_full =
  owner_id :: int
  owner_lun :: int
  number :: int
  entity_id :: int
  entity_instance :: int
  initialization :: "string list"
  capabilities :: "string list"
  sensor_type_code :: int
  event_reading_type_code :: int
  assertion_mask :: int
  deassertion_mask :: int
  discrete_reading_mask :: int
  analog_data_format :: int
  rate_unit :: int
  modifier_unit :: int
  percentage :: int
  linearization :: int
  m :: int
  tolerance :: int
  b :: int
  accuracy :: int
  accuracy_exp :: int
  k2 :: int
  k1 :: int
  analog_characteristic :: "string list"
  nominal_reading :: int
  normal_maximum :: int
  normal_minimum :: int
  sensor_maximum_reading :: int
  sensor_minimum_reading :: int
  threshold :: "string \<rightharpoonup> int"
  hysteresis :: "string \<rightharpoonup> int"
  reserved :: int
  oem :: int
  device_id_string_type_length :: int
  device_id_string :: "byte list"

definition DATA_FMT_UNSIGNED :: int where "DATA_FMT_UNSIGNED = 0"
definition DATA_FMT_1S_COMPLEMENT :: int where "DATA_FMT_1S_COMPLEMENT = 1"
definition DATA_FMT_2S_COMPLEMENT :: int where "DATA_FMT_2S_COMPLEMENT = 2"
definition DATA_FMT_NONE :: int where "DATA_FMT_NONE = 3"

definition L_LINEAR :: int where "L_LINEAR = 0"
definition L_LN :: int where "L_LN = 1"
definition L_LOG :: int where "L_LOG = 2"
definition L_LOG2 :: int where "L_LOG2 = 3"
definition L_E :: int where "L_E = 4"
definition L_EXP10 :: int where "L_EXP10 = 5"
definition L_EXP2 :: int where "L_EXP2 = 6"
definition L_1_X :: int where "L_1_X = 7"
definition L_SQR :: int where "L_SQR = 8"
definition L_CUBE :: int where "L_CUBE = 9"
definition L_SQRT :: int where "L_SQRT = 10"
definition L_CUBERT :: int where "L_CUBERT = 11"

lemmas L_defs = L_LINEAR_def L_LN_def L_LOG_def L_LOG2_def L_E_def L_EXP10_def
  L_EXP2_def L_1_X_def L_SQR_def L_CUBE_def L_SQRT_def L_CUBERT_def

lemmas DATA_FMT_defs = DATA_FMT_UNSIGNED_def DATA_FMT_1S_COMPLEMENT_def
  DATA_FMT_2S_COMPLEMENT_def DATA_FMT_NONE_def

subsection \<open>Python's numbers\<close>

text \<open>
  Python's float arithmetic and its \<^verbatim>\<open>math\<close> module are not part of the module.  The
  model takes them as a parameter: a record of the float primitives that the two
  conversions use, over any type \<open>'f\<close> of floats.  What is proved for every such record
  holds for the doubles of the Python runtime, whatever they round to, where they
  overflow and what their library functions return.  The fields are:
  the conversion of an integer to a float (\<^verbatim>\<open>OverflowError\<close> for an integer that is too
  large); the literal \<^verbatim>\<open>1.0\<close>; sum, difference and product of two floats; the quotient
  (\<^verbatim>\<open>ZeroDivisionError\<close> for a zero divisor); a power of two integers with a negative
  exponent, which is a float; the test \<^verbatim>\<open>x < 0\<close>; \<^verbatim>\<open>int(round(x))\<close>
  (\<^verbatim>\<open>OverflowError\<close> for an infinity, \<^verbatim>\<open>ValueError\<close> for a NaN); and the calls of
  \<^verbatim>\<open>math.log\<close> with one and with two arguments, \<^verbatim>\<open>math.exp\<close>, \<^verbatim>\<open>math.pow\<close> and
  \<^verbatim>\<open>math.sqrt\<close>, each with the exceptions it raises.
\<close>

datatype 'f num = PyInt int | PyFloat 'f

record 'f arith =
  float_of_int :: "int \<Rightarrow> error + 'f"
  float_one :: "'f"
  fadd :: "'f \<Rightarrow> 'f \<Rightarrow> 'f"
  fsub :: "'f \<Rightarrow> 'f \<Rightarrow> 'f"
  fmul :: "'f \<Rightarrow> 'f \<Rightarrow> 'f"
  fdiv :: "'f \<Rightarrow> 'f \<Rightarrow> error + 'f"
  int_pow_neg :: "int \<Rightarrow> int \<Rightarrow> error + 'f"
  flt0 :: "'f \<Rightarrow> bool"
  int_round :: "'f \<Rightarrow> error + int"
  math_log :: "'f \<Rightarrow> error + 'f"
  math_log_base :: "'f \<Rightarrow> int \<Rightarrow> error + 'f"
  math_exp :: "'f \<Rightarrow> error + 'f"
  math_pow :: "'f num \<Rightarrow> 'f num \<Rightarrow> error + 'f"
  math_sqrt :: "'f \<Rightarrow> error + 'f"

text \<open>An exception of a subexpression ends the evaluation of the expression.\<close>

definition bindE :: "error + 'a \<Rightarrow> ('a \<Rightarrow> error + 'b) \<Rightarrow> error + 'b" where
  "bindE r f = (case r of Inl e \<Rightarrow> Inl e | Inr x \<Rightarrow> f x)"

text \<open>
  Python's mixed arithmetic: two integers give an integer, exactly; if one operand is a
  float, the other is converted to a float first.
\<close>

definition to_float :: "'f arith \<Rightarrow> 'f num \<Rightarrow> error + 'f" where
  "to_float F x = (case x of PyInt n \<Rightarrow> float_of_int F n | PyFloat a \<Rightarrow> Inr a)"

definition float_op ::
  "'f arith \<Rightarrow> ('f \<Rightarrow> 'f \<Rightarrow> 'f) \<Rightarrow> 'f num \<Rightarrow> 'f num \<Rightarrow> error + 'f num" where
  "float_op F op x y =
     bindE (to_float F x) (\<lambda>a. bindE (to_float F y) (\<lambda>c. Inr (PyFloat (op a c))))"

fun py_mul :: "'f arith \<Rightarrow> 'f num \<Rightarrow> 'f num \<Rightarrow> error + 'f num" where
  "py_mul F (PyInt a) (PyInt c) = Inr (PyInt (a * c))"
| "py_mul F x y = float_op F (fmul F) x y"

fun py_add :: "'f arith \<Rightarrow> 'f num \<Rightarrow> 'f num \<Rightarrow> error + 'f num" where
  "py_add F (PyInt a) (PyInt c) = Inr (PyInt (a + c))"
| "py_add F x y = float_op F (fadd F) x y"

fun py_sub :: "'f arith \<Rightarrow> 'f num \<Rightarrow> 'f num \<Rightarrow> error + 'f num" where
  "py_sub F (PyInt a) (PyInt c) = Inr (PyInt (a - c))"
| "py_sub F x y = float_op F (fsub F) x y"

text \<open>A float divided by a number: the division of two floats, after the conversion.\<close>

definition float_div :: "'f arith \<Rightarrow> 'f \<Rightarrow> 'f num \<Rightarrow> error + 'f" where
  "float_div F x y = bindE (to_float F y) (\<lambda>d. fdiv F x d)"

text \<open>
  \<^verbatim>\<open>a ** k\<close> of two integers is an integer for \<open>k \<ge> 0\<close> and a float otherwise.
\<close>

definition py_pow :: "'f arith \<Rightarrow> int \<Rightarrow> int \<Rightarrow> error + 'f num" where
  "py_pow F a k =
     (if 0 \<le> k then Inr (PyInt (a ^ nat k))
      else bindE (int_pow_neg F a k) (\<lambda>r. Inr (PyFloat r)))"

subsection \<open>\<^verbatim>\<open>SdrFullSensorRecord.l\<close>\<close>

text \<open>
  The property \<^verbatim>\<open>l\<close> returns the linearization function, or raises
  \<^verbatim>\<open>DecodingError\<close>.  The \<^verbatim>\<open>elif\<close> chain is kept in the source's order.
\<close>

definition l :: "'f arith \<Rightarrow> sdr_full \<Rightarrow> error + ('f \<Rightarrow> error + 'f)" where
  "l F self =
     (let lin = linearization self AND 0x7f in
      if lin = L_LN then Inr (math_log F)
      else if lin = L_LOG then Inr (\<lambda>x. math_log_base F x 10)
      else if lin = L_LOG2 then Inr (\<lambda>x. math_log_base F x 2)
      else if lin = L_E then Inr (math_exp F)
      else if lin = L_EXP10 then Inr (\<lambda>x. math_pow F (PyInt 10) (PyFloat x))
      else if lin = L_EXP2 then Inr (\<lambda>x. math_pow F (PyInt 2) (PyFloat x))
      else if lin = L_1_X then Inr (\<lambda>x. float_div F (float_one F) (PyFloat x))
      else if lin = L_SQR then Inr (\<lambda>x. math_pow F (PyFloat x) (PyInt 2))
      else if lin = L_CUBE then Inr (\<lambda>x. math_pow F (PyFloat x) (PyInt 3))
      else if lin = L_SQRT then Inr (math_sqrt F)
      else if lin = L_CUBERT then
        Inr (\<lambda>x. bindE (float_div F (float_one F) (PyInt 3))
                    (\<lambda>third. math_pow F (PyFloat x) (PyFloat third)))
      else if lin = L_LINEAR then Inr (\<lambda>x. Inr x)
      else Inl (DecodingError (unknown_linearization lin)))"

subsection \<open>\<^verbatim>\<open>convert_sensor_raw_to_value\<close> and \<^verbatim>\<open>convert_sensor_value_to_raw\<close>\<close>

text \<open>
  \<^verbatim>\<open>raw = float(raw)\<close> comes before the call; Python then evaluates \<^verbatim>\<open>self.l\<close>, and
  after it the argument of the call, from left to right.
\<close>

definition convert_sensor_raw_to_value :: "'f arith \<Rightarrow> sdr_full \<Rightarrow> int \<Rightarrow> error + 'f" where
  "convert_sensor_raw_to_value F self raw0 =
     (let fmt = analog_data_format self;
          raw1 = (if fmt = DATA_FMT_1S_COMPLEMENT then
                    (if raw0 AND 0x80 \<noteq> 0 then - ((raw0 AND 0x7f) XOR 0x7f) else raw0)
                  else if fmt = DATA_FMT_2S_COMPLEMENT then
                    (if raw0 AND 0x80 \<noteq> 0 then - ((raw0 AND 0x7f) XOR 0x7f) - 1 else raw0)
                  else raw0)
      in
      bindE (float_of_int F raw1) (\<lambda>raw.
      bindE (l F self) (\<lambda>f.
      bindE (py_mul F (PyInt (m self)) (PyFloat raw)) (\<lambda>t1.
      bindE (py_pow F 10 (k1 self)) (\<lambda>p1.
      bindE (py_mul F (PyInt (b self)) p1) (\<lambda>t2.
      bindE (py_add F t1 t2) (\<lambda>t3.
      bindE (py_pow F 10 (k2 self)) (\<lambda>p2.
      bindE (py_mul F t3 p2) (\<lambda>t4.
      bindE (to_float F t4) f)))))))))"

text \<open>
  The float \<^verbatim>\<open>raw\<close> of \<^verbatim>\<open>convert_sensor_value_to_raw\<close>:
  \<^verbatim>\<open>((float(value) * 10**(-1 * self.k2)) / self.m) - (self.b * 10**self.k1)\<close>.
\<close>

definition raw_of_value :: "'f arith \<Rightarrow> sdr_full \<Rightarrow> 'f \<Rightarrow> error + 'f" where
  "raw_of_value F self val =
     bindE (py_pow F 10 (- 1 * k2 self)) (\<lambda>p2.
     bindE (py_mul F (PyFloat val) p2) (\<lambda>t1.
     bindE (to_float F t1) (\<lambda>t1'.
     bindE (float_div F t1' (PyInt (m self))) (\<lambda>t2.
     bindE (py_pow F 10 (k1 self)) (\<lambda>p1.
     bindE (py_mul F (PyInt (b self)) p1) (\<lambda>t3.
     bindE (py_sub F (PyFloat t2) t3) (to_float F)))))))"

text \<open>
  \<^verbatim>\<open>linearization is not self.L_LINEAR\<close> compares two small integers by identity;
  CPython shares the integers from -5 to 256, so on the masked selector it is \<open>\<noteq>\<close>.
  The float \<^verbatim>\<open>raw\<close> is evaluated before the format is looked at.
\<close>

definition convert_sensor_value_to_raw :: "'f arith \<Rightarrow> sdr_full \<Rightarrow> 'f \<Rightarrow> error + int" where
  "convert_sensor_value_to_raw F self val =
     (let lin = linearization self AND 0x7f in
      if lin \<noteq> L_LINEAR then Inl NotImplementedError
      else
        bindE (raw_of_value F self val) (\<lambda>raw.
          let fmt = analog_data_format self
          in if fmt = DATA_FMT_1S_COMPLEMENT \<and> flt0 F val then Inl NotImplementedError
             else if fmt = DATA_FMT_2S_COMPLEMENT \<and> flt0 F val then Inl NotImplementedError
             else
               bindE (int_round F raw) (\<lambda>raw'.
                 if raw' > 0xff then Inl ValueError else Inr raw')))"

subsection \<open>Exact arithmetic\<close>

text \<open>
  The interpretation of the float primitives by exact real arithmetic, to evaluate the
  model at concrete inputs.  Double arithmetic agrees with it where the operands and the
  results are integers below \<open>2^53\<close>, which the evaluations below keep to.  The one
  other value is the exponent \<^verbatim>\<open>1.0/3\<close> of the cube root, of which only this matters:
  it is not an integer, in doubles as here, and \<^verbatim>\<open>math.pow\<close> raises \<^verbatim>\<open>ValueError\<close>
  for a negative base with such an exponent.  \<^verbatim>\<open>round\<close> is Python 2's: a half goes
  away from zero.
\<close>

definition float_max :: real where
  "float_max = (2 ^ 53 - 1) * 2 ^ 971"

definition checked :: "real \<Rightarrow> error + real" where
  "checked y = (if \<bar>y\<bar> > float_max then Inl OverflowError else Inr y)"

definition real_log :: "real \<Rightarrow> error + real" where
  "real_log x = (if x \<le> 0 then Inl ValueError else Inr (ln x))"

definition real_log_base :: "real \<Rightarrow> int \<Rightarrow> error + real" where
  "real_log_base x base =
     (if x \<le> 0 then Inl ValueError else Inr (log (real_of_int base) x))"

definition real_exp :: "real \<Rightarrow> error + real" where
  "real_exp x = checked (exp x)"

definition real_pow :: "real \<Rightarrow> real \<Rightarrow> error + real" where
  "real_pow x y =
     (if x < 0 \<and> y \<notin> \<int> then Inl ValueError
      else if x = 0 \<and> y < 0 then Inl ValueError
      else if y \<in> \<int> then checked (x powi \<lfloor>y\<rfloor>)
      else checked (x powr y))"

definition real_sqrt :: "real \<Rightarrow> error + real" where
  "real_sqrt x = (if x < 0 then Inl ValueError else Inr (sqrt x))"

definition real_div :: "real \<Rightarrow> real \<Rightarrow> error + real" where
  "real_div x y = (if y = 0 then Inl ZeroDivisionError else Inr (x / y))"

definition py_round :: "real \<Rightarrow> int" where
  "py_round x = (if 0 \<le> x then \<lfloor>x + 1 / 2\<rfloor> else \<lceil>x - 1 / 2\<rceil>)"

definition num_value :: "real num \<Rightarrow> real" where
  "num_value x = (case x of PyInt n \<Rightarrow> real_of_int n | PyFloat a \<Rightarrow> a)"

definition exact_arith :: "real arith" where
  "exact_arith =
     \<lparr>float_of_int = (\<lambda>n. Inr (real_of_int n)),
      float_one = 1,
      fadd = (+),
      fsub = (-),
      fmul = (*),
      fdiv = real_div,
      int_pow_neg = (\<lambda>a k. Inr (real_of_int a powi k)),
      flt0 = (\<lambda>x. x < 0),
      int_round = (\<lambda>x. Inr (py_round x)),
      math_log = real_log,
      math_log_base = real_log_base,
      math_exp = real_exp,
      math_pow = (\<lambda>x y. real_pow (num_value x) (num_value y)),
      math_sqrt = real_sqrt\<rparr>"

text \<open>
  A full sensor record with the linear selector; only the analog fields matter.
\<close>

definition linear_sensor :: "int \<Rightarrow> int \<Rightarrow> int \<Rightarrow> int \<Rightarrow> int \<Rightarrow> sdr_full" where
  "linear_sensor fmt m' b' k1' k2' =
     \<lparr>owner_id = 0, owner_lun = 0, number = 0, entity_id = 0, entity_instance = 0,
      initialization = [], capabilities = [], sensor_type_code = 0,
      event_reading_type_code = 0, assertion_mask = 0, deassertion_mask = 0,
      discrete_reading_mask = 0, analog_data_format = fmt, rate_unit = 0,
      modifier_unit = 0, percentage = 0, linearization = 0, m = m', tolerance = 0,
      b = b', accuracy = 0, accuracy_exp = 0, k2 = k2', k1 = k1',
      analog_characteristic = [], nominal_reading = 0, normal_maximum = 0,
      normal_minimum = 0, sensor_maximum_reading = 0, sensor_minimum_reading = 0,
      threshold = Map.empty, hysteresis = Map.empty, reserved = 0, oem = 0,
      device_id_string_type_length = 0, device_id_string = []\<rparr>"

section \<open>Properties of the analog conversion\<close>

lemmas exact_eval = exact_arith_def bindE_def to_float_def float_op_def float_div_def
  py_pow_def real_div_def linear_sensor_def L_defs DATA_FMT_defs

text \<open>
  C1.  The claim fails on the code at the selector 11, the cube root.  The code calls
  \<^verbatim>\<open>math.pow(x, 1.0/3)\<close>, which raises \<^verbatim>\<open>ValueError\<close> for a negative \<open>x\<close>.  For the
  2s-complement record with \<open>m = 1\<close>, \<open>b = 0\<close>, \<open>k1 = k2 = 0\<close> the raw byte 0xf8 is
  adjusted to -8, whose cube root is -2; the conversion raises \<^verbatim>\<open>ValueError\<close>.
\<close>

theorem raw_to_value_cube_root_negative:
  "convert_sensor_raw_to_value exact_arith
     ((linear_sensor 2 1 0 0 0)\<lparr>linearization := 11\<rparr>) 0xf8 = Inl ValueError"
proof -
  have "(1 / 3 :: real) \<notin> \<int>"
  proof
    assume "(1 / 3 :: real) \<in> \<int>"
    then obtain k :: int where "1 / 3 = real_of_int k" by (auto elim: Ints_cases)
    then have "real_of_int (3 * k) = 1" by simp
    then have "3 * k = 1" by (simp only: of_int_eq_1_iff)
    then show False by presburger
  qed
  then show ?thesis
    by (simp add: convert_sensor_raw_to_value_def l_def real_pow_def num_value_def exact_eval)
qed

text \<open>
  C4.  The round trip fails on the code: \<^verbatim>\<open>convert_sensor_value_to_raw\<close> divides by
  \<open>m\<close> before it subtracts \<open>b * 10^k1\<close>, so it inverts the conversion only when that
  offset is zero or \<open>m\<close> is one.  For the unsigned linear record with \<open>m = 2\<close>, \<open>b = 2\<close>,
  \<open>k1 = k2 = 0\<close> the raw reading 10 converts to 22, and 22 converts back to 9.
\<close>

theorem value_to_raw_of_raw_to_value_at_10:
  "convert_sensor_raw_to_value exact_arith (linear_sensor 0 2 2 0 0) 10 = Inr 22
   \<and> convert_sensor_value_to_raw exact_arith (linear_sensor 0 2 2 0 0) 22 = Inr 9"
  by (simp add: convert_sensor_raw_to_value_def convert_sensor_value_to_raw_def
      raw_of_value_def l_def py_round_def exact_eval)




section \<open>The byte cursor\<close>

text \<open>
  Modelled from the spec: \<^verbatim>\<open>pyipmi.utils.ByteBuffer\<close> is not among the sources.  The
  specification describes it as a sequential reader over a byte buffer that consumes
  little-endian unsigned integers of 1 to 4 bytes, advancing an offset, and yields the
  remaining bytes as a string.  Here the buffer is the list of the bytes not yet
  consumed; \<open>None\<close> stands for the exception raised when the bytes run out.
\<close>

fun pop_unsigned_int :: "nat \<Rightarrow> byte list \<Rightarrow> (int \<times> byte list) option" where
  "pop_unsigned_int 0 buffer = Some (0, buffer)"
| "pop_unsigned_int (Suc n) [] = None"
| "pop_unsigned_int (Suc n) (x # buffer) =
     (case pop_unsigned_int n buffer of
        None \<Rightarrow> None
      | Some (v, rest) \<Rightarrow> Some (uint x OR push_bit 8 v, rest))"

text \<open>Modelled from the spec: \<^verbatim>\<open>ByteBuffer.to_string\<close> yields the remaining bytes.\<close>

definition to_string :: "byte list \<Rightarrow> byte list" where
  "to_string buffer = buffer"

section \<open>Decoding a full sensor record\<close>

definition convert_complement :: "int \<Rightarrow> nat \<Rightarrow> int" where
  "convert_complement v size' =
     (if v AND push_bit (size' - 1) 1 \<noteq> 0 then - push_bit size' 1 + v else v)"

definition flag :: "int \<Rightarrow> int \<Rightarrow> string \<Rightarrow> string list" where
  "flag v msk name = (if v AND msk \<noteq> 0 then [name] else [])"

definition initialization_flags :: "int \<Rightarrow> string list" where
  "initialization_flags v =
     flag v 0x40 ''scanning'' @ flag v 0x20 ''events'' @ flag v 0x10 ''thresholds''
     @ flag v 0x08 ''hysteresis'' @ flag v 0x04 ''type''
     @ flag v 0x02 ''default_event_generation'' @ flag v 0x01 ''default_scanning''"

definition capability_flags :: "int \<Rightarrow> string list" where
  "capability_flags v =
     flag v 0x80 ''ignore_sensor'' @ flag v 0x40 ''auto_rearm''
     @ (if v AND 0x30 = 0x00 then [''hysteresis_not_supported'']
        else if v AND 0x30 = 0x10 then [''hysteresis_readable'']
        else if v AND 0x30 = 0x20 then [''hysteresis_read_and_setable'']
        else if v AND 0x30 = 0x30 then [''hysteresis_fixed'']
        else [])
     @ (if v AND 0x30 = 0x00 then [''threshold_not_supported'']
        else if v AND 0x30 = 0x10 then [''threshold_readable'']
        else if v AND 0x30 = 0x20 then [''threshold_read_and_setable'']
        else if v AND 0x30 = 0x30 then [''threshold_fixed'']
        else [])"

definition analog_characteristic_flags :: "int \<Rightarrow> string list" where
  "analog_characteristic_flags v =
     flag v 0x01 ''nominal_reading'' @ flag v 0x02 ''normal_max''
     @ flag v 0x04 ''normal_min''"

definition SdrFullSensorRecord_from_data :: "byte list \<Rightarrow> sdr_full option" where
  "SdrFullSensorRecord_from_data data = do {
     let buffer = drop 5 data;
     (owner_id', buffer) \<leftarrow> pop_unsigned_int 1 buffer;
     (owner_lun', buffer) \<leftarrow> pop_unsigned_int 1 buffer;
     (number', buffer) \<leftarrow> pop_unsigned_int 1 buffer;
     (entity_id', buffer) \<leftarrow> pop_unsigned_int 1 buffer;
     (entity_instance', buffer) \<leftarrow> pop_unsigned_int 1 buffer;
     (initialization', buffer) \<leftarrow> pop_unsigned_int 1 buffer;
     (capabilities', buffer) \<leftarrow> pop_unsigned_int 1 buffer;
     (sensor_type_code', buffer) \<leftarrow> pop_unsigned_int 1 buffer;
     (event_reading_type_code', buffer) \<leftarrow> pop_unsigned_int 1 buffer;
     (assertion_mask', buffer) \<leftarrow> pop_unsigned_int 2 buffer;
     (deassertion_mask', buffer) \<leftarrow> pop_unsigned_int 2 buffer;
     (discrete_reading_mask', buffer) \<leftarrow> pop_unsigned_int 2 buffer;
     (units_1, buffer) \<leftarrow> pop_unsigned_int 1 buffer;
     (units_2, buffer) \<leftarrow> pop_unsigned_int 1 buffer;
     (units_3, buffer) \<leftarrow> pop_unsigned_int 1 buffer;
     (linearization', buffer) \<leftarrow> pop_unsigned_int 1 buffer;
     (m', buffer) \<leftarrow> pop_unsigned_int 1 buffer;
     (m_tol, buffer) \<leftarrow> pop_unsigned_int 1 buffer;
     (b', buffer) \<leftarrow> pop_unsigned_int 1 buffer;
     (b_acc, buffer) \<leftarrow> pop_unsigned_int 1 buffer;
     (acc_accexp, buffer) \<leftarrow> pop_unsigned_int 1 buffer;
     (rexp_bexp, buffer) \<leftarrow> pop_unsigned_int 1 buffer;
     (analog_characteristics, buffer) \<leftarrow> pop_unsigned_int 1 buffer;
     (nominal_reading', buffer) \<leftarrow> pop_unsigned_int 1 buffer;
     (normal_maximum', buffer) \<leftarrow> pop_unsigned_int 1 buffer;
     (normal_minimum', buffer) \<leftarrow> pop_unsigned_int 1 buffer;
     (sensor_maximum_reading', buffer) \<leftarrow> pop_unsigned_int 1 buffer;
     (sensor_minimum_reading', buffer) \<leftarrow> pop_unsigned_int 1 buffer;
     (threshold_unr, buffer) \<leftarrow> pop_unsigned_int 1 buffer;
     (threshold_ucr, buffer) \<leftarrow> pop_unsigned_int 1 buffer;
     (threshold_unc, buffer) \<leftarrow> pop_unsigned_int 1 buffer;
     (threshold_lnr, buffer) \<leftarrow> pop_unsigned_int 1 buffer;
     (threshold_lcr, buffer) \<leftarrow> pop_unsigned_int 1 buffer;
     (threshold_lnc, buffer) \<leftarrow> pop_unsigned_int 1 buffer;
     (positive_going, buffer) \<leftarrow> pop_unsigned_int 1 buffer;
     (negative_going, buffer) \<leftarrow> pop_unsigned_int 1 buffer;
     (reserved', buffer) \<leftarrow> pop_unsigned_int 2 buffer;
     (oem', buffer) \<leftarrow> pop_unsigned_int 1 buffer;
     (device_id_string_type_length', buffer) \<leftarrow> pop_unsigned_int 1 buffer;
     Some \<lparr>
       owner_id = owner_id',
       owner_lun = owner_lun',
       number = number',
       entity_id = entity_id',
       entity_instance = entity_instance',
       initialization = initialization_flags initialization',
       capabilities = capability_flags capabilities',
       sensor_type_code = sensor_type_code',
       event_reading_type_code = event_reading_type_code',
       assertion_mask = assertion_mask',
       deassertion_mask = deassertion_mask',
       discrete_reading_mask = discrete_reading_mask',
       analog_data_format = drop_bit 6 units_1 AND 0x3,
       rate_unit = drop_bit 0x7 (drop_bit 3 units_1),
       modifier_unit = drop_bit 1 units_1 AND 0x2,
       percentage = units_1 AND 0x1,
       linearization = linearization' AND 0x7f,
       m = (m' AND 0xff) OR push_bit 2 (m_tol AND 0xc0),
       tolerance = m_tol AND 0x3f,
       b = convert_complement ((b' AND 0xff) OR push_bit 2 (b_acc AND 0xc0)) 10,
       accuracy = (b_acc AND 0x3f) OR push_bit 4 (acc_accexp AND 0xf0),
       accuracy_exp = drop_bit 2 (acc_accexp AND 0x0c),
       k2 = convert_complement (drop_bit 4 (rexp_bexp AND 0xf0)) 4,
       k1 = convert_complement (rexp_bexp AND 0x0f) 4,
       analog_characteristic = analog_characteristic_flags analog_characteristics,
       nominal_reading = nominal_reading',
       normal_maximum = normal_maximum',
       normal_minimum = normal_minimum',
       sensor_maximum_reading = sensor_maximum_reading',
       sensor_minimum_reading = sensor_minimum_reading',
       threshold = [''unr'' \<mapsto> threshold_unr, ''ucr'' \<mapsto> threshold_ucr,
                    ''unc'' \<mapsto> threshold_unc, ''lnr'' \<mapsto> threshold_lnr,
                    ''lcr'' \<mapsto> threshold_lcr, ''lnc'' \<mapsto> threshold_lnc],
       hysteresis = [''positive_going'' \<mapsto> positive_going,
                     ''negative_going'' \<mapsto> negative_going],
       reserved = reserved',
       oem = oem',
       device_id_string_type_length = device_id_string_type_length',
       device_id_string = to_string buffer
     \<rparr>
   }"


definition le_uint :: "byte list \<Rightarrow> int" where
  "le_uint bs = foldr (\<lambda>x v. uint x OR push_bit 8 v) bs 0"

lemma pop_unsigned_int_iff:
  "pop_unsigned_int n buf = Some (v, rest) \<longleftrightarrow>
     n \<le> length buf \<and> v = le_uint (take n buf) \<and> rest = drop n buf"
proof (induction n buf arbitrary: v rest rule: pop_unsigned_int.induct)
  case (1 buffer)
  then show ?case by (auto simp: le_uint_def)
next
  case (2 n)
  then show ?case by simp
next
  case (3 n x buffer)
  then show ?case by (auto simp: le_uint_def split: option.splits)
qed

lemma le_uint_take_1: "n < length xs \<Longrightarrow> le_uint (take 1 (drop n xs)) = uint (xs ! n)"
  by (simp add: le_uint_def take_Suc_conv_app_nth One_nat_def[symmetric] del: One_nat_def)
   (simp add:  Cons_nth_drop_Suc[symmetric])



lemma bind_pop_eq_Some:
  "(pop_unsigned_int n buf \<bind> case_prod g) = Some f \<longleftrightarrow>
     n \<le> length buf \<and> g (le_uint (take n buf)) (drop n buf) = Some f"
  by (auto simp: bind_eq_Some_conv pop_unsigned_int_iff)

lemma bind_pop_drop:
  assumes "0 < n"
  shows "(pop_unsigned_int n (drop k data) \<bind> case_prod g) = Some f \<longleftrightarrow>
     k + n \<le> length data \<and> g (le_uint (take n (drop k data))) (drop (k + n) data) = Some f"
  using assms by (auto simp: bind_eq_Some_conv pop_unsigned_int_iff add.commute)

lemma bind_pop_drop_1:
  "(pop_unsigned_int 1 (drop k data) \<bind> case_prod g) = Some f \<longleftrightarrow>
     k + 1 \<le> length data \<and> g (le_uint (take 1 (drop k data))) (drop (k + 1) data) = Some f"
  by (rule bind_pop_drop) simp

lemma bind_pop_drop_2:
  "(pop_unsigned_int 2 (drop k data) \<bind> case_prod g) = Some f \<longleftrightarrow>
     k + 2 \<le> length data \<and> g (le_uint (take 2 (drop k data))) (drop (k + 2) data) = Some f"
  by (rule bind_pop_drop) simp

lemma bind_pop_drop_3:
  "(pop_unsigned_int 3 (drop k data) \<bind> case_prod g) = Some f \<longleftrightarrow>
     k + 3 \<le> length data \<and> g (le_uint (take 3 (drop k data))) (drop (k + 3) data) = Some f"
  by (rule bind_pop_drop) simp

lemma from_data_Some_raw:
  assumes "SdrFullSensorRecord_from_data data = Some f"
  shows "48 \<le> length data \<and>
     rate_unit f = drop_bit 7 (drop_bit 3 (le_uint (take 1 (drop 20 data)))) \<and>
     modifier_unit f = drop_bit 1 (le_uint (take 1 (drop 20 data))) AND 0x2 \<and>
     threshold f = [''unr'' \<mapsto> le_uint (take 1 (drop 36 data)), ''ucr'' \<mapsto> le_uint (take 1 (drop 37 data)),
                    ''unc'' \<mapsto> le_uint (take 1 (drop 38 data)), ''lnr'' \<mapsto> le_uint (take 1 (drop 39 data)),
                    ''lcr'' \<mapsto> le_uint (take 1 (drop 40 data)), ''lnc'' \<mapsto> le_uint (take 1 (drop 41 data))]"
  using assms
  unfolding SdrFullSensorRecord_from_data_def Let_def bind_pop_drop_1 bind_pop_drop_2
  apply (simp only: option.inject numeral_plus_numeral numeral_plus_one semiring_norm)
  apply clarify
  apply (simp del: fun_upd_apply)
  done

section \<open>Properties of the full sensor record decoder\<close>

lemma le_uint_take_Suc_0:
  "n < length xs \<Longrightarrow> le_uint (take (Suc 0) (drop n xs)) = uint (xs ! n)"
  using le_uint_take_1 [of n xs] by simp

lemma from_data_Some:
  assumes "SdrFullSensorRecord_from_data data = Some f"
  shows "48 \<le> length data"
    and "rate_unit f = drop_bit 7 (drop_bit 3 (uint (data ! 20)))"
    and "modifier_unit f = drop_bit 1 (uint (data ! 20)) AND 0x2"
    and "threshold f = [''unr'' \<mapsto> uint (data ! 36), ''ucr'' \<mapsto> uint (data ! 37),
                    ''unc'' \<mapsto> uint (data ! 38), ''lnr'' \<mapsto> uint (data ! 39),
                    ''lcr'' \<mapsto> uint (data ! 40), ''lnc'' \<mapsto> uint (data ! 41)]"
proof -
  note raw = from_data_Some_raw [OF assms]
  from raw show len: "48 \<le> length data" by simp
  from raw len show "rate_unit f = drop_bit 7 (drop_bit 3 (uint (data ! 20)))"
    by (simp add: le_uint_take_Suc_0)
  from raw len show "modifier_unit f = drop_bit 1 (uint (data ! 20)) AND 0x2"
    by (simp add: le_uint_take_Suc_0)
  from raw len show "threshold f = [''unr'' \<mapsto> uint (data ! 36), ''ucr'' \<mapsto> uint (data ! 37),
                    ''unc'' \<mapsto> uint (data ! 38), ''lnr'' \<mapsto> uint (data ! 39),
                    ''lcr'' \<mapsto> uint (data ! 40), ''lnc'' \<mapsto> uint (data ! 41)]"
    by (simp add: le_uint_take_Suc_0 del: fun_upd_apply)
qed

lemma drop_bit_10_byte: "drop_bit 7 (drop_bit 3 (uint (w :: byte))) = 0"
proof -
  have "uint w < 2 ^ 8" using uint_lt2p [of w] by simp
  then have "uint w div 2 ^ 10 = 0" by simp
  then show ?thesis
    by (simp add: drop_bit_eq_div)
qed

lemma and_2_cases: "(x::int) AND 2 = 0 \<or> x AND 2 = 2"
proof (cases "bit x 1")
  case True
  have "x AND 2 = 2"
  proof (rule bit_eqI)
    fix n
    show "bit (x AND 2) n = bit (2::int) n"
      using True
      by (cases "n = 1") (auto simp: bit_and_iff bit_numeral_Bit0_iff bit_1_iff)
  qed
  then show ?thesis by simp
next
  case False
  have "(2::int) = 2 ^ 1" by simp
  with False have "x AND 2 = 0"
    using and_exp_eq_0_iff_not_bit [of x 1] by simp
  then show ?thesis by simp
qed

lemma pop_unsigned_int_1_Cons: "pop_unsigned_int 1 (x # xs) = Some (uint x, xs)"
  unfolding One_nat_def by simp

lemma pop_unsigned_int_2_Cons:
  "pop_unsigned_int 2 (x # y # xs) = Some (uint x OR push_bit 8 (uint y), xs)"
  by (simp add: numeral_2_eq_2)

lemma pop_unsigned_int_3_Cons:
  "pop_unsigned_int 3 (x # y # z # xs) =
     Some (uint x OR push_bit 8 (uint y OR push_bit 8 (uint z)), xs)"
  by (simp add: numeral_3_eq_3)

lemmas pop_Cons = pop_unsigned_int_1_Cons pop_unsigned_int_2_Cons pop_unsigned_int_3_Cons

text \<open>
  A full sensor record of 48 bytes: the 5-byte header (type 0x01, body length 43), and
  a body whose threshold bytes are 0x60, 0x50, 0x40, 0x10, 0x20, 0x30.
\<close>

definition example_full_record :: "byte list" where
  "example_full_record =
     [0x01, 0x00, 0x51, 0x01, 0x2b,
      0x20, 0x00, 0x07,
      0x03, 0x01, 0x7f, 0x68, 0x01, 0x01,
      0x00, 0x00, 0x00, 0x00, 0x00, 0x00,
      0xb8, 0x01, 0x00,
      0x00, 0x02, 0x00, 0x00, 0x00, 0x00, 0x00, 0x07,
      0x19, 0x50, 0x0a, 0xff, 0x00,
      0x60, 0x50, 0x40, 0x10, 0x20, 0x30,
      0x02, 0x02, 0x00, 0x00, 0x00, 0xc0]"

lemma drop_5_example_full_record:
  "drop 5 example_full_record =
     [0x20, 0x00, 0x07,
      0x03, 0x01, 0x7f, 0x68, 0x01, 0x01,
      0x00, 0x00, 0x00, 0x00, 0x00, 0x00,
      0xb8, 0x01, 0x00,
      0x00, 0x02, 0x00, 0x00, 0x00, 0x00, 0x00, 0x07,
      0x19, 0x50, 0x0a, 0xff, 0x00,
      0x60, 0x50, 0x40, 0x10, 0x20, 0x30,
      0x02, 0x02, 0x00, 0x00, 0x00, 0xc0]"
  by (simp add: example_full_record_def)

lemma example_full_record_decodes:
  "SdrFullSensorRecord_from_data example_full_record \<noteq> None"
  unfolding SdrFullSensorRecord_from_data_def Let_def drop_5_example_full_record
  by (simp only: pop_Cons bind.bind_lunit case_prod_conv option.distinct not_False_eq_True)


lemma example_full_record_Some:
  "SdrFullSensorRecord_from_data example_full_record
     = Some (the (SdrFullSensorRecord_from_data example_full_record))"
  using example_full_record_decodes by simp

text \<open>
  C10.  For every byte sequence that \<^verbatim>\<open>from_data\<close> of the full sensor record accepts,
  the decoded \<open>rate_unit\<close> is 0 whatever the byte \<open>units_1\<close> is, since
  \<^verbatim>\<open>(units_1 >> 3) >> 0x7\<close> shifts a byte by ten bits, and the decoded
  \<open>modifier_unit\<close>, \<^verbatim>\<open>(units_1 >> 1) & 0x2\<close>, is 0 or 2.
\<close>

theorem full_record_units_1_fields:
  assumes "SdrFullSensorRecord_from_data data = Some f"
  shows "rate_unit f = 0 \<and> (modifier_unit f = 0 \<or> modifier_unit f = 2)"
  using from_data_Some(2,3) [OF assms] and_2_cases drop_bit_10_byte by simp

theorem full_record_units_1_fields_witness:
  "SdrFullSensorRecord_from_data example_full_record
     = Some (the (SdrFullSensorRecord_from_data example_full_record))
   \<and> uint (example_full_record ! 20) = 0xb8
   \<and> rate_unit (the (SdrFullSensorRecord_from_data example_full_record)) = 0
   \<and> modifier_unit (the (SdrFullSensorRecord_from_data example_full_record)) = 0"
proof -
  note e = example_full_record_Some
  have u: "uint (example_full_record ! 20) = 0xb8"
    by (simp add: example_full_record_def)
  have "modifier_unit (the (SdrFullSensorRecord_from_data example_full_record)) = 0"
    using from_data_Some(3) [OF e] by (simp add: u)
  with e u full_record_units_1_fields [OF e] show ?thesis by simp
qed

text \<open>
  C8, amended.  \<^verbatim>\<open>from_data\<close> of the full sensor record consumes the six threshold
  bytes (bytes 36 to 41 of the record) in the order unr, ucr, unc, lnr, lcr, lnc and
  stores each under the key of that name.
\<close>

theorem full_record_threshold_order:
  assumes "SdrFullSensorRecord_from_data data = Some f"
  shows "threshold f ''unr'' = Some (uint (data ! 36))
       \<and> threshold f ''ucr'' = Some (uint (data ! 37))
       \<and> threshold f ''unc'' = Some (uint (data ! 38))
       \<and> threshold f ''lnr'' = Some (uint (data ! 39))
       \<and> threshold f ''lcr'' = Some (uint (data ! 40))
       \<and> threshold f ''lnc'' = Some (uint (data ! 41))"
  using from_data_Some(4) [OF assms] by simp

theorem full_record_threshold_order_witness:
  "SdrFullSensorRecord_from_data example_full_record
     = Some (the (SdrFullSensorRecord_from_data example_full_record))
   \<and> threshold (the (SdrFullSensorRecord_from_data example_full_record)) ''unr'' = Some 0x60
   \<and> threshold (the (SdrFullSensorRecord_from_data example_full_record)) ''ucr'' = Some 0x50
   \<and> threshold (the (SdrFullSensorRecord_from_data example_full_record)) ''unc'' = Some 0x40
   \<and> threshold (the (SdrFullSensorRecord_from_data example_full_record)) ''lnr'' = Some 0x10
   \<and> threshold (the (SdrFullSensorRecord_from_data example_full_record)) ''lcr'' = Some 0x20
   \<and> threshold (the (SdrFullSensorRecord_from_data example_full_record)) ''lnc'' = Some 0x30"
  using example_full_record_Some full_record_threshold_order [OF example_full_record_Some]
  by (simp add: example_full_record_def)

text \<open>
  C8, as the claim states it, fails: the fourth threshold byte consumed (byte 39 of the
  record, here 0x10) is stored under \<open>lnr\<close>, not under \<open>lnc\<close>.
\<close>

theorem full_record_fourth_threshold_is_lnr:
  "SdrFullSensorRecord_from_data example_full_record \<noteq> None
   \<and> uint (example_full_record ! 39) = 0x10
   \<and> threshold (the (SdrFullSensorRecord_from_data example_full_record)) ''lnc'' \<noteq> Some 0x10
   \<and> threshold (the (SdrFullSensorRecord_from_data example_full_record)) ''lnr'' = Some 0x10"
  using example_full_record_decodes from_data_Some(4) [OF example_full_record_Some]
  by (simp add: example_full_record_def)

section \<open>The other record layouts\<close>

text \<open>
  The attributes of the compact sensor record, the FRU device locator and the
  management controller device locator.  A record field is a constant in Isabelle, so
  the attributes that several classes share carry the class as a prefix here.
\<close>

record sdr_compact =
  compact_owner_id :: int
  compact_owner_lun :: int
  compact_number :: int
  compact_entity_id :: int
  compact_entity_instance :: int
  compact_sensor_initialization :: int
  compact_capabilities :: int
  compact_sensor_type :: int
  compact_event_reading_type_code :: int
  compact_assertion_mask :: int
  compact_deassertion_mask :: int
  compact_discrete_reading_mask :: int
  compact_units_1 :: int
  compact_units_2 :: int
  compact_units_3 :: int
  compact_record_sharing :: int
  compact_positive_going_hysteresis :: int
  compact_negative_going_hysteresis :: int
  compact_reserved :: int
  compact_oem :: int
  compact_device_id_string_type_length :: int
  compact_device_id_string :: "byte list"

record sdr_fru =
  fru_device_access_address :: int
  fru_fru_device_id :: int
  fru_logical_physical :: int
  fru_channel_number :: int
  fru_reserved :: int
  fru_device_type :: int
  fru_device_type_modifier :: int
  fru_entity_id :: int
  fru_entity_instance :: int
  fru_oem :: int
  fru_device_id_string_type_length :: int
  fru_device_id_string :: "byte list"

record sdr_mc =
  mc_device_slave_address :: int
  mc_channel_number :: int
  mc_power_state_notification :: int
  mc_global_initialization :: int
  mc_device_capabilities :: int
  mc_reserved :: int
  mc_entity_id :: int
  mc_entity_instance :: int
  mc_oem :: int
  mc_device_id_string_type_length :: int
  mc_device_id_string :: "byte list"

definition SdrCompactSensorRecord_from_data :: "byte list \<Rightarrow> sdr_compact option" where
  "SdrCompactSensorRecord_from_data data = do {
     let buffer = drop 5 data;
     (owner_id', buffer) \<leftarrow> pop_unsigned_int 1 buffer;
     (owner_lun', buffer) \<leftarrow> pop_unsigned_int 1 buffer;
     (number', buffer) \<leftarrow> pop_unsigned_int 1 buffer;
     (entity_id', buffer) \<leftarrow> pop_unsigned_int 1 buffer;
     (entity_instance', buffer) \<leftarrow> pop_unsigned_int 1 buffer;
     (sensor_initialization, buffer) \<leftarrow> pop_unsigned_int 1 buffer;
     (capabilities', buffer) \<leftarrow> pop_unsigned_int 1 buffer;
     (sensor_type, buffer) \<leftarrow> pop_unsigned_int 1 buffer;
     (event_reading_type_code', buffer) \<leftarrow> pop_unsigned_int 1 buffer;
     (assertion_mask', buffer) \<leftarrow> pop_unsigned_int 2 buffer;
     (deassertion_mask', buffer) \<leftarrow> pop_unsigned_int 2 buffer;
     (discrete_reading_mask', buffer) \<leftarrow> pop_unsigned_int 2 buffer;
     (units_1, buffer) \<leftarrow> pop_unsigned_int 1 buffer;
     (units_2, buffer) \<leftarrow> pop_unsigned_int 1 buffer;
     (units_3, buffer) \<leftarrow> pop_unsigned_int 1 buffer;
     (record_sharing, buffer) \<leftarrow> pop_unsigned_int 2 buffer;
     (positive_going_hysteresis, buffer) \<leftarrow> pop_unsigned_int 1 buffer;
     (negative_going_hysteresis, buffer) \<leftarrow> pop_unsigned_int 1 buffer;
     (reserved', buffer) \<leftarrow> pop_unsigned_int 3 buffer;
     (oem', buffer) \<leftarrow> pop_unsigned_int 1 buffer;
     (device_id_string_type_length', buffer) \<leftarrow> pop_unsigned_int 1 buffer;
     Some \<lparr>
       compact_owner_id = owner_id',
       compact_owner_lun = owner_lun',
       compact_number = number',
       compact_entity_id = entity_id',
       compact_entity_instance = entity_instance',
       compact_sensor_initialization = sensor_initialization,
       compact_capabilities = capabilities',
       compact_sensor_type = sensor_type,
       compact_event_reading_type_code = event_reading_type_code',
       compact_assertion_mask = assertion_mask',
       compact_deassertion_mask = deassertion_mask',
       compact_discrete_reading_mask = discrete_reading_mask',
       compact_units_1 = units_1,
       compact_units_2 = units_2,
       compact_units_3 = units_3,
       compact_record_sharing = record_sharing,
       compact_positive_going_hysteresis = positive_going_hysteresis,
       compact_negative_going_hysteresis = negative_going_hysteresis,
       compact_reserved = reserved',
       compact_oem = oem',
       compact_device_id_string_type_length = device_id_string_type_length',
       compact_device_id_string = to_string buffer
     \<rparr>
   }"

definition SdrFruDeviceLocator_from_data :: "byte list \<Rightarrow> sdr_fru option" where
  "SdrFruDeviceLocator_from_data data = do {
     let buffer = drop 5 data;
     (device_access_address, buffer) \<leftarrow> pop_unsigned_int 1 buffer;
     (fru_device_id, buffer) \<leftarrow> pop_unsigned_int 1 buffer;
     (logical_physical, buffer) \<leftarrow> pop_unsigned_int 1 buffer;
     (channel_number, buffer) \<leftarrow> pop_unsigned_int 1 buffer;
     (reserved', buffer) \<leftarrow> pop_unsigned_int 1 buffer;
     (device_type, buffer) \<leftarrow> pop_unsigned_int 1 buffer;
     (device_type_modifier, buffer) \<leftarrow> pop_unsigned_int 1 buffer;
     (entity_id', buffer) \<leftarrow> pop_unsigned_int 1 buffer;
     (entity_instance', buffer) \<leftarrow> pop_unsigned_int 1 buffer;
     (oem', buffer) \<leftarrow> pop_unsigned_int 1 buffer;
     (device_id_string_type_length', buffer) \<leftarrow> pop_unsigned_int 1 buffer;
     Some \<lparr>
       fru_device_access_address = drop_bit 1 device_access_address,
       fru_fru_device_id = fru_device_id,
       fru_logical_physical = logical_physical,
       fru_channel_number = channel_number,
       fru_reserved = reserved',
       fru_device_type = device_type,
       fru_device_type_modifier = device_type_modifier,
       fru_entity_id = entity_id',
       fru_entity_instance = entity_instance',
       fru_oem = oem',
       fru_device_id_string_type_length = device_id_string_type_length',
       fru_device_id_string = to_string buffer
     \<rparr>
   }"

definition SdrManagementContollerDeviceLocator_from_data :: "byte list \<Rightarrow> sdr_mc option" where
  "SdrManagementContollerDeviceLocator_from_data data = do {
     let buffer = drop 5 data;
     (device_slave_address, buffer) \<leftarrow> pop_unsigned_int 1 buffer;
     (channel_number, buffer) \<leftarrow> pop_unsigned_int 1 buffer;
     (power_state_notification, buffer) \<leftarrow> pop_unsigned_int 1 buffer;
     (device_capabilities, buffer) \<leftarrow> pop_unsigned_int 1 buffer;
     (reserved', buffer) \<leftarrow> pop_unsigned_int 3 buffer;
     (entity_id', buffer) \<leftarrow> pop_unsigned_int 1 buffer;
     (entity_instance', buffer) \<leftarrow> pop_unsigned_int 1 buffer;
     (oem', buffer) \<leftarrow> pop_unsigned_int 1 buffer;
     (device_id_string_type_length', buffer) \<leftarrow> pop_unsigned_int 1 buffer;
     Some \<lparr>
       mc_device_slave_address = drop_bit 1 device_slave_address,
       mc_channel_number = channel_number AND 0xf,
       mc_power_state_notification = power_state_notification,
       mc_global_initialization = 0,
       mc_device_capabilities = device_capabilities,
       mc_reserved = reserved',
       mc_entity_id = entity_id',
       mc_entity_instance = entity_instance',
       mc_oem = oem',
       mc_device_id_string_type_length = device_id_string_type_length',
       mc_device_id_string = to_string buffer
     \<rparr>
   }"

section \<open>Record objects and \<^verbatim>\<open>create_sdr\<close>\<close>

text \<open>
  An object of one of the five record classes: its class, the attributes that
  \<^verbatim>\<open>SdrCommon.from_response\<close> sets (absent when the constructor got empty data), the
  attribute \<^verbatim>\<open>next_id\<close> (absent when the constructor did not set it), and the
  attributes of the class's own \<^verbatim>\<open>from_data\<close>.
\<close>

record sdr_common =
  data :: "byte list"
  sdr_id :: int        \<comment> \<open>\<^verbatim>\<open>self.id\<close>\<close>
  version :: int
  sdr_type :: int      \<comment> \<open>\<^verbatim>\<open>self.type\<close>\<close>
  lenght :: int

datatype sdr_class =
    SdrFullSensorRecord
  | SdrCompactSensorRecord
  | SdrEventOnlySensorRecord
  | SdrFruDeviceLocator
  | SdrManagementContollerDeviceLocator

datatype sdr_attrs =
    no_attrs
  | full_attrs sdr_full
  | compact_attrs sdr_compact
  | fru_attrs sdr_fru
  | mc_attrs sdr_mc

record sdr =
  cls :: sdr_class
  common :: "sdr_common option"
  next_id :: "int option"
  attrs :: sdr_attrs

text \<open>The exception of the byte cursor, as the parsers' callers see it.\<close>

definition cursor_error :: error where
  "cursor_error = DecodingError Data_too_short"

definition from_response :: "byte list \<Rightarrow> error + sdr_common" where
  "from_response data' =
     (if length data' < 5 then Inl (DecodingError (Invalid_SDR_length (length data')))
      else
        case do {
          (id', buffer) \<leftarrow> pop_unsigned_int 2 data';
          (version', buffer) \<leftarrow> pop_unsigned_int 1 buffer;
          (type', buffer) \<leftarrow> pop_unsigned_int 1 buffer;
          (lenght', buffer) \<leftarrow> pop_unsigned_int 1 buffer;
          Some \<lparr>data = data', sdr_id = id', version = version', sdr_type = type',
                 lenght = lenght'\<rparr>
        } of
          None \<Rightarrow> Inl cursor_error
        | Some c \<Rightarrow> Inr c)"

text \<open>
  \<^verbatim>\<open>SdrCommon.__init__\<close>: \<^verbatim>\<open>if rsp:\<close> is true for data that is not empty, and
  \<^verbatim>\<open>if next_id:\<close> is true for a successor that is neither \<^verbatim>\<open>None\<close> nor 0.
\<close>

definition SdrCommon_init ::
  "byte list \<Rightarrow> int option \<Rightarrow> error + (sdr_common option \<times> int option)" where
  "SdrCommon_init rsp next_id' =
     (case (if rsp \<noteq> [] then map_sum id Some (from_response rsp) else Inr None) of
        Inl e \<Rightarrow> Inl e
      | Inr c \<Rightarrow>
          Inr (c, (case next_id' of
                     None \<Rightarrow> None
                   | Some n \<Rightarrow> if n \<noteq> 0 then Some n else None)))"

text \<open>
  The constructor of a record class: \<^verbatim>\<open>SdrCommon.__init__\<close>, then the class's
  \<^verbatim>\<open>from_data\<close> when the data is not empty.
\<close>

definition init_record ::
  "sdr_class \<Rightarrow> (byte list \<Rightarrow> sdr_attrs option) \<Rightarrow> byte list \<Rightarrow> int option \<Rightarrow> error + sdr" where
  "init_record c from_data data' next_id' =
     (case SdrCommon_init data' next_id' of
        Inl e \<Rightarrow> Inl e
      | Inr (com, n) \<Rightarrow>
          if data' \<noteq> [] then
            (case from_data data' of
               None \<Rightarrow> Inl cursor_error
             | Some a \<Rightarrow> Inr \<lparr>cls = c, common = com, next_id = n, attrs = a\<rparr>)
          else Inr \<lparr>cls = c, common = com, next_id = n, attrs = no_attrs\<rparr>)"

definition SdrFullSensorRecord_init :: "byte list \<Rightarrow> int option \<Rightarrow> error + sdr" where
  "SdrFullSensorRecord_init =
     init_record SdrFullSensorRecord
       (\<lambda>d. map_option full_attrs (SdrFullSensorRecord_from_data d))"

definition SdrCompactSensorRecord_init :: "byte list \<Rightarrow> int option \<Rightarrow> error + sdr" where
  "SdrCompactSensorRecord_init =
     init_record SdrCompactSensorRecord
       (\<lambda>d. map_option compact_attrs (SdrCompactSensorRecord_from_data d))"

text \<open>\<^verbatim>\<open>SdrEventOnlySensorRecord.from_data\<close> is \<^verbatim>\<open>pass\<close>.\<close>

definition SdrEventOnlySensorRecord_init :: "byte list \<Rightarrow> int option \<Rightarrow> error + sdr" where
  "SdrEventOnlySensorRecord_init =
     init_record SdrEventOnlySensorRecord (\<lambda>d. Some no_attrs)"

definition SdrFruDeviceLocator_init :: "byte list \<Rightarrow> int option \<Rightarrow> error + sdr" where
  "SdrFruDeviceLocator_init =
     init_record SdrFruDeviceLocator
       (\<lambda>d. map_option fru_attrs (SdrFruDeviceLocator_from_data d))"

definition SdrManagementContollerDeviceLocator_init ::
  "byte list \<Rightarrow> int option \<Rightarrow> error + sdr" where
  "SdrManagementContollerDeviceLocator_init =
     init_record SdrManagementContollerDeviceLocator
       (\<lambda>d. map_option mc_attrs (SdrManagementContollerDeviceLocator_from_data d))"

definition SDR_TYPE_FULL_SENSOR_RECORD :: int where
  "SDR_TYPE_FULL_SENSOR_RECORD = 0x01"
definition SDR_TYPE_COMPACT_SENSOR_RECORD :: int where
  "SDR_TYPE_COMPACT_SENSOR_RECORD = 0x02"
definition SDR_TYPE_EVENT_ONLY_SENSOR_RECORD :: int where
  "SDR_TYPE_EVENT_ONLY_SENSOR_RECORD = 0x03"
definition SDR_TYPE_ENTITY_ASSOCIATION_RECORD :: int where
  "SDR_TYPE_ENTITY_ASSOCIATION_RECORD = 0x08"
definition SDR_TYPE_FRU_DEVICE_LOCATOR_RECORD :: int where
  "SDR_TYPE_FRU_DEVICE_LOCATOR_RECORD = 0x11"
definition SDR_TYPE_MANAGEMENT_CONTROLLER_DEVICE_LOCATOR_RECORD :: int where
  "SDR_TYPE_MANAGEMENT_CONTROLLER_DEVICE_LOCATOR_RECORD = 0x12"
definition SDR_TYPE_MANAGEMENT_CONTROLLER_CONFIRMATION_RECORD :: int where
  "SDR_TYPE_MANAGEMENT_CONTROLLER_CONFIRMATION_RECORD = 0x13"
definition SDR_TYPE_BMC_MESSAGE_CHANNEL_INFO_RECORD :: int where
  "SDR_TYPE_BMC_MESSAGE_CHANNEL_INFO_RECORD = 0x14"

lemmas SDR_TYPE_defs = SDR_TYPE_FULL_SENSOR_RECORD_def SDR_TYPE_COMPACT_SENSOR_RECORD_def
  SDR_TYPE_EVENT_ONLY_SENSOR_RECORD_def SDR_TYPE_ENTITY_ASSOCIATION_RECORD_def
  SDR_TYPE_FRU_DEVICE_LOCATOR_RECORD_def
  SDR_TYPE_MANAGEMENT_CONTROLLER_DEVICE_LOCATOR_RECORD_def
  SDR_TYPE_MANAGEMENT_CONTROLLER_CONFIRMATION_RECORD_def
  SDR_TYPE_BMC_MESSAGE_CHANNEL_INFO_RECORD_def

text \<open>\<^verbatim>\<open>ord(data[3])\<close> raises \<^verbatim>\<open>IndexError\<close> on data of fewer than four bytes.\<close>

definition create_sdr :: "byte list \<Rightarrow> int option \<Rightarrow> error + sdr" where
  "create_sdr data' next_id' =
     (if length data' \<le> 3 then Inl IndexError
      else
        let sdr_type' = uint (data' ! 3) in
        if sdr_type' = SDR_TYPE_FULL_SENSOR_RECORD then
          SdrFullSensorRecord_init data' next_id'
        else if sdr_type' = SDR_TYPE_COMPACT_SENSOR_RECORD then
          SdrCompactSensorRecord_init data' next_id'
        else if sdr_type' = SDR_TYPE_EVENT_ONLY_SENSOR_RECORD then
          SdrEventOnlySensorRecord_init data' next_id'
        else if sdr_type' = SDR_TYPE_FRU_DEVICE_LOCATOR_RECORD then
          SdrFruDeviceLocator_init data' next_id'
        else if sdr_type' = SDR_TYPE_MANAGEMENT_CONTROLLER_DEVICE_LOCATOR_RECORD then
          SdrManagementContollerDeviceLocator_init data' next_id'
        else if sdr_type' = SDR_TYPE_MANAGEMENT_CONTROLLER_CONFIRMATION_RECORD then
          Inl (DecodingError (Unsupported_SDR_type sdr_type'))
        else if sdr_type' = SDR_TYPE_BMC_MESSAGE_CHANNEL_INFO_RECORD then
          Inl (DecodingError (Unsupported_SDR_type sdr_type'))
        else
          Inl (DecodingError (Unsupported_SDR_type sdr_type')))"

section \<open>Properties of \<^verbatim>\<open>create_sdr\<close>\<close>

text \<open>
  C3.  Given data with a record-type byte (byte 3), \<^verbatim>\<open>create_sdr\<close> calls the
  constructor of the full, compact, event-only, FRU device locator or management
  controller device locator record for the types 0x01, 0x02, 0x03, 0x11 and 0x12; for
  0x13, 0x14 and every other type it raises the \<^verbatim>\<open>DecodingError\<close> whose message is
  \<^verbatim>\<open>Unsupported SDR type\<close> with the record type, and nothing else.  The specification
  calls this error \<open>UnsupportedRecordType\<close>.
\<close>

theorem create_sdr_dispatch:
  assumes "3 < length d"
  shows "create_sdr d n =
     (if uint (d ! 3) = 0x01 then SdrFullSensorRecord_init d n
      else if uint (d ! 3) = 0x02 then SdrCompactSensorRecord_init d n
      else if uint (d ! 3) = 0x03 then SdrEventOnlySensorRecord_init d n
      else if uint (d ! 3) = 0x11 then SdrFruDeviceLocator_init d n
      else if uint (d ! 3) = 0x12 then SdrManagementContollerDeviceLocator_init d n
      else Inl (DecodingError (Unsupported_SDR_type (uint (d ! 3)))))"
  using assms by (simp add: create_sdr_def SDR_TYPE_defs Let_def)

lemma from_response_5:
  "from_response [a, b', c, d, e] =
     Inr \<lparr>data = [a, b', c, d, e], sdr_id = uint a OR push_bit 8 (uint b'),
          version = uint c, sdr_type = uint d, lenght = uint e\<rparr>"
  by (simp add: from_response_def pop_Cons)

theorem create_sdr_dispatch_witness:
  "3 < length [0x02, 0x00, 0x51, 0x13, 0x00 :: byte]
   \<and> create_sdr [0x02, 0x00, 0x51, 0x13, 0x00] None
       = Inl (DecodingError (Unsupported_SDR_type 0x13))
   \<and> create_sdr [0x02, 0x00, 0x51, 0x14, 0x00] None
       = Inl (DecodingError (Unsupported_SDR_type 0x14))
   \<and> create_sdr [0x02, 0x00, 0x51, 0x03, 0x00] (Some 5)
       = Inr \<lparr>cls = SdrEventOnlySensorRecord,
              common = Some \<lparr>data = [0x02, 0x00, 0x51, 0x03, 0x00], sdr_id = 2,
                              version = 0x51, sdr_type = 3, lenght = 0\<rparr>,
              next_id = Some 5, attrs = no_attrs\<rparr>"
  using create_sdr_dispatch [of "[0x02, 0x00, 0x51, 0x13, 0x00]" None]
    create_sdr_dispatch [of "[0x02, 0x00, 0x51, 0x14, 0x00]" None]
    create_sdr_dispatch [of "[0x02, 0x00, 0x51, 0x03, 0x00]" "Some 5"]
  by (simp add: SdrEventOnlySensorRecord_init_def init_record_def SdrCommon_init_def
      from_response_5)

section \<open>The messaging port\<close>

text \<open>
  Modelled from the spec: the messaging layer (\<^verbatim>\<open>send_message\<close>, the request and
  response classes of \<^verbatim>\<open>pyipmi.msgs\<close>) is not among the sources.  The specification
  gives its contract: a request with named fields is answered by a response with a
  completion code and the fields of the command.  The port is modelled by what it
  answers: the responses to the reservation requests and to the read requests, each in
  the order of the calls, and the log of the read requests that were sent.  A call that
  finds no response left raises \<open>TransportError\<close>.
\<close>

record response =
  completion_code :: int

record reserve_rsp = response +
  reservation_id :: int

record get_sdr_rsp = response +
  next_record_id :: int
  record_data :: "byte list"

record sensor_reading_rsp = response +
  sensor_reading :: int
  update_in_progress :: bool
  states1 :: "int option"
  states2 :: "int option"

record get_sdr_req =
  req_reservation_id :: int
  req_record_id :: int
  req_offset :: int
  req_length :: int

record port =
  reserve_rsps :: "reserve_rsp list"
  sdr_rsps :: "get_sdr_rsp list"
  sent :: "get_sdr_req list"

definition send_reserve :: "port \<Rightarrow> (error + reserve_rsp) \<times> port" where
  "send_reserve p =
     (case reserve_rsps p of
        [] \<Rightarrow> (Inl TransportError, p)
      | r # rs \<Rightarrow> (Inr r, p\<lparr>reserve_rsps := rs\<rparr>))"

definition send_get_sdr :: "get_sdr_req \<Rightarrow> port \<Rightarrow> (error + get_sdr_rsp) \<times> port" where
  "send_get_sdr req p =
     (case sdr_rsps p of
        [] \<Rightarrow> (Inl TransportError, p\<lparr>sent := sent p @ [req]\<rparr>)
      | r # rs \<Rightarrow> (Inr r, p\<lparr>sdr_rsps := rs, sent := sent p @ [req]\<rparr>))"

text \<open>
  Modelled from the spec: \<^verbatim>\<open>pyipmi.utils.check_completion_code\<close> is not among the
  sources; it fails with the completion code when the code is not zero.
\<close>

definition check_completion_code :: "int \<Rightarrow> error + unit" where
  "check_completion_code cc = (if cc \<noteq> 0 then Inl (CompletionCodeError cc) else Inr ())"

text \<open>
  The completion codes of \<^verbatim>\<open>pyipmi.msgs.constants\<close> that the reader names are not
  among the sources; they are a parameter of the reader.
\<close>

record constants =
  CC_RES_CANCELED :: int
  CC_RESP_COULD_NOT_BE_PRV :: int
  CC_CANT_RET_NUM_REQ_BYTES :: int

section \<open>The record reader\<close>

definition get_reservation_id :: "port \<Rightarrow> (error + int) \<times> port" where
  "get_reservation_id p =
     (case send_reserve p of
        (Inl e, p') \<Rightarrow> (Inl e, p')
      | (Inr rsp, p') \<Rightarrow>
          (case check_completion_code (completion_code rsp) of
             Inl e \<Rightarrow> (Inl e, p')
           | Inr _ \<Rightarrow> (Inr (reservation_id rsp), p')))"

lemma send_get_sdr_shorter:
  "send_get_sdr req p = (Inr rsp, p') \<Longrightarrow> length (sdr_rsps p') < length (sdr_rsps p)"
  by (auto simp: send_get_sdr_def split: list.splits)

lemma get_reservation_id_sdr_rsps:
  "get_reservation_id p = (r, p') \<Longrightarrow> sdr_rsps p' = sdr_rsps p"
  by (auto simp: get_reservation_id_def send_reserve_def split: list.splits sum.splits)

text \<open>
  The first loop of \<^verbatim>\<open>get_sdr\<close>: it reads the 5 bytes of the header.  The waits
  (\<^verbatim>\<open>time.sleep\<close>) change nothing that the model holds.
\<close>

function header_loop ::
  "constants \<Rightarrow> get_sdr_req \<Rightarrow> int \<Rightarrow> port \<Rightarrow> (error + (get_sdr_rsp \<times> get_sdr_req)) \<times> port" where
  "header_loop C req retry p =
     (if retry = 0 then (Inl RetryError, p)
      else
        case send_get_sdr req p of
          (Inl e, p') \<Rightarrow> (Inl e, p')
        | (Inr rsp, p') \<Rightarrow>
            if completion_code rsp = 0 then (Inr (rsp, req), p')
            else if completion_code rsp = CC_RES_CANCELED C then
              (case get_reservation_id p' of
                 (Inl e, p'') \<Rightarrow> (Inl e, p'')
               | (Inr rid, p'') \<Rightarrow>
                   header_loop C (req\<lparr>req_reservation_id := rid\<rparr>) (retry - 1) p'')
            else if completion_code rsp = CC_RESP_COULD_NOT_BE_PRV C then
              header_loop C req (retry - 1) p'
            else
              (case check_completion_code (completion_code rsp) of
                 Inl e \<Rightarrow> (Inl e, p')
               | Inr _ \<Rightarrow> header_loop C req retry p'))"
  by pat_completeness auto
termination
  by (relation "measure (\<lambda>(C, req, retry, p). length (sdr_rsps p))")
    (auto dest!: send_get_sdr_shorter [OF sym] get_reservation_id_sdr_rsps [OF sym])

declare header_loop.simps [simp del]

text \<open>
  The second loop of \<^verbatim>\<open>get_sdr\<close>: it reads the rest of the record in pages.  Each
  turn first sets the length of the request: the page size, cut to what is left of the
  record.
\<close>

definition page_request :: "int \<Rightarrow> int \<Rightarrow> get_sdr_req \<Rightarrow> get_sdr_req" where
  "page_request record_length max_req_len req0 =
     (let req1 = req0\<lparr>req_length := max_req_len\<rparr>
      in if req_offset req1 + req_length req1 > record_length
         then req1\<lparr>req_length := record_length - req_offset req1\<rparr>
         else req1)"

function body_loop ::
  "constants \<Rightarrow> int \<Rightarrow> get_sdr_req \<Rightarrow> int \<Rightarrow> int \<Rightarrow> byte list \<Rightarrow> port
     \<Rightarrow> (error + byte list) \<times> port" where
  "body_loop C record_length req0 max_req_len retry record_data' p =
     (if retry = 0 then (Inl RetryError, p)
      else
        let req = page_request record_length max_req_len req0 in
        case send_get_sdr req p of
          (Inl e, p') \<Rightarrow> (Inl e, p')
        | (Inr rsp, p') \<Rightarrow>
            if completion_code rsp = CC_CANT_RET_NUM_REQ_BYTES C then
              (let max_req_len' = max_req_len - 4;
                   retry' = (if max_req_len' \<le> 0 then 0 else retry)
               in body_loop C record_length req max_req_len' retry' record_data' p')
            else if completion_code rsp = CC_RES_CANCELED C then
              (case get_reservation_id p' of
                 (Inl e, p'') \<Rightarrow> (Inl e, p'')
               | (Inr rid, p'') \<Rightarrow>
                   body_loop C record_length
                     (req\<lparr>req_reservation_id := rid, req_offset := 0\<rparr>)
                     max_req_len (retry - 1) [] p'')
            else if completion_code rsp = 0xce then
              body_loop C record_length req max_req_len (retry - 1) record_data' p'
            else
              (case check_completion_code (completion_code rsp) of
                 Inl e \<Rightarrow> (Inl e, p')
               | Inr _ \<Rightarrow>
                   (let record_data'' = record_data' @ record_data rsp;
                        req' = req\<lparr>req_offset := int (length record_data'')\<rparr>
                    in if int (length record_data'') \<ge> record_length
                       then (Inr record_data'', p')
                       else body_loop C record_length req' max_req_len retry
                              record_data'' p')))"
  by pat_completeness auto
termination
  by (relation "measure (\<lambda>(C, L, req, mrl, retry, acc, p). length (sdr_rsps p))")
    (auto dest!: send_get_sdr_shorter [OF sym] get_reservation_id_sdr_rsps [OF sym])

declare body_loop.simps [simp del]

definition get_sdr ::
  "constants \<Rightarrow> int \<Rightarrow> int option \<Rightarrow> port \<Rightarrow> (error + sdr) \<times> port" where
  "get_sdr C record_id reservation_id' p =
     (case (case reservation_id' of
              None \<Rightarrow> get_reservation_id p
            | Some r \<Rightarrow> (Inr r, p)) of
        (Inl e, p1) \<Rightarrow> (Inl e, p1)
      | (Inr rid, p1) \<Rightarrow>
          (case header_loop C
                  \<lparr>req_reservation_id = rid, req_record_id = record_id,
                   req_offset = 0, req_length = 5\<rparr> 5 p1 of
             (Inl e, p2) \<Rightarrow> (Inl e, p2)
           | (Inr (rsp, req), p2) \<Rightarrow>
               (let next_record_id' = next_record_id rsp;
                    record_data' = record_data rsp
                in case do {
                     (record_id', buffer) \<leftarrow> pop_unsigned_int 2 (record_data rsp);
                     (record_version, buffer) \<leftarrow> pop_unsigned_int 1 buffer;
                     (record_type, buffer) \<leftarrow> pop_unsigned_int 1 buffer;
                     (record_length, buffer) \<leftarrow> pop_unsigned_int 1 buffer;
                     Some (record_length + 5)
                   } of
                     None \<Rightarrow> (Inl cursor_error, p2)
                   | Some record_length \<Rightarrow>
                       (case body_loop C record_length
                               (req\<lparr>req_offset := int (length record_data')\<rparr>)
                               20 20 record_data' p2 of
                          (Inl e, p3) \<Rightarrow> (Inl e, p3)
                        | (Inr record_data'', p3) \<Rightarrow>
                            (create_sdr record_data'' (Some next_record_id'), p3)))))"


section \<open>Scripted ports\<close>

text \<open>
  The responses of a mocked port: a read that succeeds with some bytes, a read that
  reports the reservation as canceled, and a reservation that succeeds.
\<close>

definition Success :: "int \<Rightarrow> byte list \<Rightarrow> get_sdr_rsp" where
  "Success next_id' bytes =
     \<lparr>completion_code = 0, next_record_id = next_id', record_data = bytes\<rparr>"

definition ReservationCanceled :: "constants \<Rightarrow> get_sdr_rsp" where
  "ReservationCanceled C =
     \<lparr>completion_code = CC_RES_CANCELED C, next_record_id = 0, record_data = []\<rparr>"

definition Reserved :: "int \<Rightarrow> reserve_rsp" where
  "Reserved rid = \<lparr>completion_code = 0, reservation_id = rid\<rparr>"

text \<open>
  A list of chunks delivers a record of \<open>L\<close> bytes to an accumulator that holds \<open>n\<close>
  bytes when the accumulator reaches \<open>L\<close> bytes with the last chunk and not before.
\<close>

fun delivers :: "int \<Rightarrow> nat \<Rightarrow> byte list list \<Rightarrow> bool" where
  "delivers L n [] = False"
| "delivers L n (c # cs) =
     (if L \<le> int (n + length c) then cs = [] else delivers L (n + length c) cs)"

section \<open>Properties of the record reader\<close>

lemma body_loop_canceled:
  assumes "retry \<noteq> 0"
    and "sdr_rsps p = rsp # rs"
    and "completion_code rsp = CC_RES_CANCELED C"
    and "CC_RES_CANCELED C \<noteq> CC_CANT_RET_NUM_REQ_BYTES C"
    and "reserve_rsps p = r # rvs"
    and "completion_code r = 0"
  shows "body_loop C L req mrl retry acc p =
     body_loop C L
       ((page_request L mrl req)\<lparr>req_reservation_id := reservation_id r, req_offset := 0\<rparr>)
       mrl (retry - 1) []
       (p\<lparr>sdr_rsps := rs, sent := sent p @ [page_request L mrl req], reserve_rsps := rvs\<rparr>)"
  using assms
  by (subst body_loop.simps)
    (simp add: send_get_sdr_def get_reservation_id_def send_reserve_def
      check_completion_code_def Let_def)

lemma body_loop_success:
  assumes "retry \<noteq> 0"
    and "sdr_rsps p = rsp # rs"
    and "completion_code rsp = 0"
    and "CC_RES_CANCELED C \<noteq> 0"
    and "CC_CANT_RET_NUM_REQ_BYTES C \<noteq> 0"
  shows "body_loop C L req mrl retry acc p =
     (if L \<le> int (length (acc @ record_data rsp))
      then (Inr (acc @ record_data rsp),
            p\<lparr>sdr_rsps := rs, sent := sent p @ [page_request L mrl req]\<rparr>)
      else body_loop C L
             ((page_request L mrl req)\<lparr>req_offset := int (length (acc @ record_data rsp))\<rparr>)
             mrl retry (acc @ record_data rsp)
             (p\<lparr>sdr_rsps := rs, sent := sent p @ [page_request L mrl req]\<rparr>))"
  using assms
  by (subst body_loop.simps)
    (simp add: send_get_sdr_def check_completion_code_def Let_def)

lemma body_loop_chunks:
  assumes "retry \<noteq> 0"
    and "CC_RES_CANCELED C \<noteq> 0"
    and "CC_CANT_RET_NUM_REQ_BYTES C \<noteq> 0"
    and "sdr_rsps p = map (Success n) cs"
    and "delivers L (length acc) cs"
  shows "fst (body_loop C L req mrl retry acc p) = Inr (acc @ concat cs)"
  using assms(4,5)
proof (induction cs arbitrary: acc req p)
  case Nil
  then show ?case by simp
next
  case (Cons c cs)
  from Cons.prems(1) have p: "sdr_rsps p = Success n c # map (Success n) cs" by simp
  have cc: "completion_code (Success n c) = 0" and rd: "record_data (Success n c) = c"
    by (simp_all add: Success_def)
  note step = body_loop_success [OF assms(1) p cc assms(2,3), of L req mrl acc, unfolded rd]
  show ?case
  proof (cases "L \<le> int (length acc + length c)")
    case True
    with Cons.prems(2) have "cs = []" by simp
    with True step show ?thesis by simp
  next
    case False
    with Cons.prems(2) have d: "delivers L (length (acc @ c)) cs" by simp
    have "fst (body_loop C L
             ((page_request L mrl req)\<lparr>req_offset := int (length (acc @ c))\<rparr>)
             mrl retry (acc @ c)
             (p\<lparr>sdr_rsps := map (Success n) cs, sent := sent p @ [page_request L mrl req]\<rparr>))
          = Inr ((acc @ c) @ concat cs)"
      using d by (intro Cons.IH) simp_all
    with False step show ?thesis by simp
  qed
qed


lemma header_loop_success:
  assumes "sdr_rsps p = rsp # rs" and "completion_code rsp = 0"
  shows "header_loop C req 5 p = (Inr (rsp, req), p\<lparr>sdr_rsps := rs, sent := sent p @ [req]\<rparr>)"
  using assms by (subst header_loop.simps) (simp add: send_get_sdr_def)

lemma pop_unsigned_int_enough:
  "n \<le> length buf \<Longrightarrow> pop_unsigned_int n buf = Some (le_uint (take n buf), drop n buf)"
  by (simp add: pop_unsigned_int_iff)

lemma header_record_length:
  assumes "5 \<le> length h"
  shows "do {
           (record_id', buffer) \<leftarrow> pop_unsigned_int 2 h;
           (record_version, buffer) \<leftarrow> pop_unsigned_int 1 buffer;
           (record_type, buffer) \<leftarrow> pop_unsigned_int 1 buffer;
           (record_length, buffer) \<leftarrow> pop_unsigned_int 1 buffer;
           Some (record_length + 5)
         } = Some (uint (h ! 4) + 5)"
proof -
  from assms obtain a0 a1 a2 a3 a4 t where h: "h = a0 # a1 # a2 # a3 # a4 # t"
    by (auto simp: Suc_le_length_iff eval_nat_numeral)
  show ?thesis
    unfolding h by (simp add: pop_Cons)
qed

lemma get_sdr_after_header:
  assumes "sdr_rsps p = Success nid h # rs" and "5 \<le> length h"
  shows "get_sdr C rid (Some resv) p =
     (case body_loop C (uint (h ! 4) + 5)
             \<lparr>req_reservation_id = resv, req_record_id = rid,
              req_offset = int (length h), req_length = 5\<rparr>
             20 20 h
             (p\<lparr>sdr_rsps := rs,
                sent := sent p @ [\<lparr>req_reservation_id = resv, req_record_id = rid,
                                   req_offset = 0, req_length = 5\<rparr>]\<rparr>) of
        (Inl e, p3) \<Rightarrow> (Inl e, p3)
      | (Inr bytes, p3) \<Rightarrow> (create_sdr bytes (Some nid), p3))"
proof -
  have cc: "completion_code (Success nid h) = 0" by (simp add: Success_def)
  show ?thesis
    unfolding get_sdr_def
    by (simp add: header_loop_success [OF assms(1) cc] Let_def
        header_record_length [OF assms(2), unfolded One_nat_def] Success_def
        split: prod.splits sum.splits)
qed


lemma fst_decode:
  "fst x = Inr bytes \<Longrightarrow>
   fst (case x of (Inl e, p3) \<Rightarrow> (Inl e, p3) | (Inr b', p3) \<Rightarrow> (f b', p3)) = f bytes"
  by (cases x) auto

lemma get_sdr_uninterrupted:
  assumes "CC_RES_CANCELED C \<noteq> 0" and "CC_CANT_RET_NUM_REQ_BYTES C \<noteq> 0"
    and "5 \<le> length h"
    and "delivers (uint (h ! 4) + 5) (length h) body"
    and "sdr_rsps p = Success nid h # map (Success n) body"
  shows "fst (get_sdr C rid (Some resv) p) = create_sdr (h @ concat body) (Some nid)"
  unfolding get_sdr_after_header [OF assms(5,3)]
  by (rule fst_decode, rule body_loop_chunks [where n = n]) (use assms in simp_all)

lemma get_sdr_interrupted:
  assumes "CC_RES_CANCELED C \<noteq> 0" and "CC_CANT_RET_NUM_REQ_BYTES C \<noteq> 0"
    and "CC_RES_CANCELED C \<noteq> CC_CANT_RET_NUM_REQ_BYTES C"
    and "5 \<le> length h"
    and "int (length (h @ part)) < uint (h ! 4) + 5"
    and "delivers (uint (h ! 4) + 5) 0 rest"
    and "sdr_rsps p =
           Success nid h # Success n1 part # ReservationCanceled C # map (Success n2) rest"
    and "reserve_rsps p = Reserved resv' # rvs"
  shows "fst (get_sdr C rid (Some resv) p) = create_sdr (concat rest) (Some nid)"
proof -
  define L where "L = uint (h ! 4) + 5"
  define req0 where "req0 = \<lparr>req_reservation_id = resv, req_record_id = rid,
    req_offset = int (length h), req_length = 5\<rparr>"
  define p1 where "p1 = p\<lparr>sdr_rsps := Success n1 part # ReservationCanceled C # map (Success n2) rest,
    sent := sent p @ [\<lparr>req_reservation_id = resv, req_record_id = rid,
                       req_offset = 0, req_length = 5\<rparr>]\<rparr>"
  have 1: "body_loop C L req0 20 20 h p1 =
      body_loop C L ((page_request L 20 req0)\<lparr>req_offset := int (length (h @ part))\<rparr>)
        20 20 (h @ part)
        (p1\<lparr>sdr_rsps := ReservationCanceled C # map (Success n2) rest,
            sent := sent p1 @ [page_request L 20 req0]\<rparr>)"
    using assms(5)
    by (subst body_loop_success [where rsp = "Success n1 part"
          and rs = "ReservationCanceled C # map (Success n2) rest"])
      (simp_all add: p1_def Success_def assms(1,2) L_def)
  define req1 where "req1 = (page_request L 20 req0)\<lparr>req_offset := int (length (h @ part))\<rparr>"
  define p2 where "p2 = p1\<lparr>sdr_rsps := ReservationCanceled C # map (Success n2) rest,
            sent := sent p1 @ [page_request L 20 req0]\<rparr>"
  have 2: "body_loop C L req1 20 20 (h @ part) p2 =
      body_loop C L
        ((page_request L 20 req1)\<lparr>req_reservation_id := reservation_id (Reserved resv'),
           req_offset := 0\<rparr>)
        20 (20 - 1) []
        (p2\<lparr>sdr_rsps := map (Success n2) rest, sent := sent p2 @ [page_request L 20 req1],
            reserve_rsps := rvs\<rparr>)"
    by (rule body_loop_canceled [where rsp = "ReservationCanceled C"])
      (simp_all add: p2_def p1_def ReservationCanceled_def Reserved_def assms(3,8))
  have 3: "fst (body_loop C L
        ((page_request L 20 req1)\<lparr>req_reservation_id := reservation_id (Reserved resv'),
           req_offset := 0\<rparr>)
        20 (20 - 1) []
        (p2\<lparr>sdr_rsps := map (Success n2) rest, sent := sent p2 @ [page_request L 20 req1],
            reserve_rsps := rvs\<rparr>)) = Inr ([] @ concat rest)"
    by (rule body_loop_chunks [where n = n2]) (use assms(1,2,6) in \<open>simp_all add: L_def\<close>)
  have "fst (body_loop C L req0 20 20 h p1) = Inr (concat rest)"
    using 1 2 3 by (simp add: req1_def p2_def)
  then show ?thesis
    unfolding get_sdr_after_header [OF assms(7,4)] L_def req0_def p1_def
    by (rule fst_decode)
qed


lemma get_sdr_two_reads:
  assumes "CC_RES_CANCELED C \<noteq> 0" and "CC_CANT_RET_NUM_REQ_BYTES C \<noteq> 0"
    and "5 \<le> length h"
    and "sdr_rsps p = Success nid h # Success n c # rs"
    and "uint (h ! 4) + 5 \<le> int (length (h @ c))"
  shows "get_sdr C rid (Some resv) p =
     (create_sdr (h @ c) (Some nid),
      p\<lparr>sdr_rsps := rs,
        sent := sent p @
          [\<lparr>req_reservation_id = resv, req_record_id = rid, req_offset = 0, req_length = 5\<rparr>,
           page_request (uint (h ! 4) + 5) 20
             \<lparr>req_reservation_id = resv, req_record_id = rid,
              req_offset = int (length h), req_length = 5\<rparr>]\<rparr>)"
  unfolding get_sdr_after_header [OF assms(4,3)]
  by (subst body_loop_success [where rsp = "Success n c" and rs = rs])
    (use assms in \<open>simp_all add: Success_def\<close>)

text \<open>The completion codes of the IPMI specification, for the examples.\<close>

definition ipmi_constants :: constants where
  "ipmi_constants =
     \<lparr>CC_RES_CANCELED = 0xc5, CC_RESP_COULD_NOT_BE_PRV = 0xce,
      CC_CANT_RET_NUM_REQ_BYTES = 0xca\<rparr>"

lemma from_response_8:
  "from_response [a0, a1, a2, a3, a4, a5, a6, a7] =
     Inr \<lparr>data = [a0, a1, a2, a3, a4, a5, a6, a7], sdr_id = uint a0 OR push_bit 8 (uint a1),
          version = uint a2, sdr_type = uint a3, lenght = uint a4\<rparr>"
  by (simp add: from_response_def pop_Cons)

text \<open>
  C2.  In the body phase a read that answers \<open>ReservationCanceled\<close> makes the reader
  acquire a new reservation, empty the accumulator, set the offset of the request to 0,
  take one from the attempt budget and go round the loop again.  After it the reader
  asks for the record from its first byte, so the reads that follow deliver the whole
  record.  Hence the responses \<open>Success(part)\<close>, \<open>ReservationCanceled\<close>, \<open>Success\<close> of
  the chunks \<open>rest\<close> give the record that the uninterrupted responses \<open>Success\<close> of the
  chunks \<open>body\<close> give, when both deliver the same bytes.
\<close>

theorem reservation_canceled_in_body:
  assumes "CC_RES_CANCELED C \<noteq> 0" and "CC_CANT_RET_NUM_REQ_BYTES C \<noteq> 0"
    and "CC_RES_CANCELED C \<noteq> CC_CANT_RET_NUM_REQ_BYTES C"
    and "5 \<le> length h"
    and "int (length (h @ part)) < uint (h ! 4) + 5"
    and "delivers (uint (h ! 4) + 5) 0 rest"
    and "delivers (uint (h ! 4) + 5) (length h) body"
    and "concat rest = h @ concat body"
  shows "(\<forall>L req mrl retry acc p rs rvs.
            retry \<noteq> 0 \<and> sdr_rsps p = ReservationCanceled C # rs
              \<and> reserve_rsps p = Reserved resv' # rvs \<longrightarrow>
            body_loop C L req mrl retry acc p =
              body_loop C L
                ((page_request L mrl req)\<lparr>req_reservation_id := resv', req_offset := 0\<rparr>)
                mrl (retry - 1) []
                (p\<lparr>sdr_rsps := rs, sent := sent p @ [page_request L mrl req],
                   reserve_rsps := rvs\<rparr>))
       \<and> fst (get_sdr C rid (Some resv)
               \<lparr>reserve_rsps = [Reserved resv'],
                sdr_rsps = Success nid h # Success n1 part # ReservationCanceled C
                             # map (Success n2) rest,
                sent = []\<rparr>)
           = create_sdr (h @ concat body) (Some nid)
       \<and> fst (get_sdr C rid (Some resv)
               \<lparr>reserve_rsps = [], sdr_rsps = Success nid h # map (Success n2) body,
                sent = []\<rparr>)
           = create_sdr (h @ concat body) (Some nid)"
proof (intro conjI allI impI)
  fix L mrl retry :: int and req :: get_sdr_req and acc :: "byte list" and p :: port
    and rs :: "get_sdr_rsp list" and rvs :: "reserve_rsp list"
  assume a: "retry \<noteq> 0 \<and> sdr_rsps p = ReservationCanceled C # rs
              \<and> reserve_rsps p = Reserved resv' # rvs"
  have "body_loop C L req mrl retry acc p =
      body_loop C L
        ((page_request L mrl req)\<lparr>req_reservation_id := reservation_id (Reserved resv'),
           req_offset := 0\<rparr>)
        mrl (retry - 1) []
        (p\<lparr>sdr_rsps := rs, sent := sent p @ [page_request L mrl req], reserve_rsps := rvs\<rparr>)"
    by (rule body_loop_canceled [where rsp = "ReservationCanceled C"])
      (use a assms(3) in \<open>simp_all add: ReservationCanceled_def Reserved_def\<close>)
  then show "body_loop C L req mrl retry acc p =
      body_loop C L
        ((page_request L mrl req)\<lparr>req_reservation_id := resv', req_offset := 0\<rparr>)
        mrl (retry - 1) []
        (p\<lparr>sdr_rsps := rs, sent := sent p @ [page_request L mrl req], reserve_rsps := rvs\<rparr>)"
    by (simp add: Reserved_def)
next
  have "fst (get_sdr C rid (Some resv)
               \<lparr>reserve_rsps = [Reserved resv'],
                sdr_rsps = Success nid h # Success n1 part # ReservationCanceled C
                             # map (Success n2) rest,
                sent = []\<rparr>)
           = create_sdr (concat rest) (Some nid)"
    by (rule get_sdr_interrupted [OF assms(1-6), where ?n1.0 = n1 and ?n2.0 = n2]) simp_all
  then show "fst (get_sdr C rid (Some resv)
               \<lparr>reserve_rsps = [Reserved resv'],
                sdr_rsps = Success nid h # Success n1 part # ReservationCanceled C
                             # map (Success n2) rest,
                sent = []\<rparr>)
           = create_sdr (h @ concat body) (Some nid)"
    by (simp add: assms(8))
next
  show "fst (get_sdr C rid (Some resv)
               \<lparr>reserve_rsps = [], sdr_rsps = Success nid h # map (Success n2) body,
                sent = []\<rparr>)
           = create_sdr (h @ concat body) (Some nid)"
    by (rule get_sdr_uninterrupted [OF assms(1,2,4,7), where n = n2]) simp
qed

text \<open>An event-only record: the 5-byte header (body length 3) and three body bytes.\<close>

definition example_event_record :: "byte list" where
  "example_event_record = [0x02, 0x00, 0x51, 0x03, 0x03, 0xaa, 0xbb, 0xcc]"

theorem reservation_canceled_in_body_witness:
  "fst (get_sdr ipmi_constants 2 (Some 1)
          \<lparr>reserve_rsps = [Reserved 7],
           sdr_rsps = [Success 5 (take 5 example_event_record), Success 0 [0xaa],
                       ReservationCanceled ipmi_constants, Success 0 example_event_record],
           sent = []\<rparr>)
     = Inr \<lparr>cls = SdrEventOnlySensorRecord,
            common = Some \<lparr>data = example_event_record, sdr_id = 2, version = 0x51,
                            sdr_type = 3, lenght = 3\<rparr>,
            next_id = Some 5, attrs = no_attrs\<rparr>
   \<and> fst (get_sdr ipmi_constants 2 (Some 1)
          \<lparr>reserve_rsps = [],
           sdr_rsps = [Success 5 (take 5 example_event_record), Success 0 [0xaa, 0xbb, 0xcc]],
           sent = []\<rparr>)
     = Inr \<lparr>cls = SdrEventOnlySensorRecord,
            common = Some \<lparr>data = example_event_record, sdr_id = 2, version = 0x51,
                            sdr_type = 3, lenght = 3\<rparr>,
            next_id = Some 5, attrs = no_attrs\<rparr>"
proof -
  have c: "create_sdr example_event_record (Some 5) =
      Inr \<lparr>cls = SdrEventOnlySensorRecord,
            common = Some \<lparr>data = example_event_record, sdr_id = 2, version = 0x51,
                            sdr_type = 3, lenght = 3\<rparr>,
            next_id = Some 5, attrs = no_attrs\<rparr>"
    by (simp add: create_sdr_def SDR_TYPE_defs SdrEventOnlySensorRecord_init_def
        init_record_def SdrCommon_init_def from_response_8 example_event_record_def)
  show ?thesis
    using reservation_canceled_in_body [of ipmi_constants "take 5 example_event_record"
        "[0xaa]" "[example_event_record]" "[[0xaa, 0xbb, 0xcc]]" 7 2 1 5 0 0]
    by (simp add: c) (simp add: ipmi_constants_def example_event_record_def)
qed

text \<open>
  C9.  The claim fails on the code for the successor 0.  \<^verbatim>\<open>SdrCommon.__init__\<close> sets
  \<^verbatim>\<open>next_id\<close> under \<^verbatim>\<open>if next_id:\<close>, which is false for 0: a record whose header
  response carries \<open>next_record_id = 0\<close> is returned without the attribute.
\<close>

theorem get_sdr_successor_zero:
  "fst (get_sdr ipmi_constants 0 (Some 1)
          \<lparr>reserve_rsps = [],
           sdr_rsps = [Success 0 [0x00, 0x00, 0x51, 0x03, 0x00], Success 0 []],
           sent = []\<rparr>)
     = Inr \<lparr>cls = SdrEventOnlySensorRecord,
            common = Some \<lparr>data = [0x00, 0x00, 0x51, 0x03, 0x00], sdr_id = 0,
                            version = 0x51, sdr_type = 3, lenght = 0\<rparr>,
            next_id = None, attrs = no_attrs\<rparr>"
  by (subst get_sdr_two_reads [where h = "[0x00, 0x00, 0x51, 0x03, 0x00]" and c = "[]"
        and nid = 0 and n = 0 and rs = "[]"])
    (simp_all add: ipmi_constants_def create_sdr_def SDR_TYPE_defs
      SdrEventOnlySensorRecord_init_def init_record_def SdrCommon_init_def from_response_5)

section \<open>The repository enumerator\<close>

lemma header_loop_shorter:
  "header_loop C req retry p = (Inr x, p') \<Longrightarrow> length (sdr_rsps p') < length (sdr_rsps p)"
proof (induction C req retry p rule: header_loop.induct)
  case (1 C req retry p)
  show ?case
  proof (cases "send_get_sdr req p")
    case (Pair r p1)
    from "1.prems" have retry: "retry \<noteq> 0"
      by (subst (asm) header_loop.simps) (auto split: if_splits)
    from "1.prems" Pair retry obtain rsp where r: "r = Inr rsp"
      by (subst (asm) header_loop.simps) (auto split: sum.splits)
    have short: "length (sdr_rsps p1) < length (sdr_rsps p)"
      using Pair r by (auto dest: send_get_sdr_shorter)
    show ?thesis
    proof (cases "completion_code rsp = 0")
      case True
      with "1.prems" Pair r retry have "p' = p1"
        by (subst (asm) header_loop.simps) simp
      with short show ?thesis by simp
    next
      case nz: False
      show ?thesis
      proof (cases "completion_code rsp = CC_RES_CANCELED C")
        case True
        obtain q p2 where g: "get_reservation_id p1 = (q, p2)" by (cases "get_reservation_id p1")
        from "1.prems" Pair r retry nz True g obtain rid where q: "q = Inr rid"
          by (subst (asm) header_loop.simps) (auto split: sum.splits)
        from "1.prems" Pair r retry nz True g q
        have "header_loop C (req\<lparr>req_reservation_id := rid\<rparr>) (retry - 1) p2 = (Inr x, p')"
          by (subst (asm) header_loop.simps) simp
        then have "length (sdr_rsps p') < length (sdr_rsps p2)"
          using "1.IH"(1) [OF retry Pair [symmetric] r nz True g [symmetric] q] by simp
        with short get_reservation_id_sdr_rsps [OF g] show ?thesis by simp
      next
        case nc: False
        show ?thesis
        proof (cases "completion_code rsp = CC_RESP_COULD_NOT_BE_PRV C")
          case True
          from "1.prems" Pair r retry nz nc True
          have "header_loop C req (retry - 1) p1 = (Inr x, p')"
            by (subst (asm) header_loop.simps) simp
          then have "length (sdr_rsps p') < length (sdr_rsps p1)"
            using "1.IH"(2) [OF retry Pair [symmetric] r nz nc True] by simp
          with short show ?thesis by simp
        next
          case False
          with "1.prems" Pair r retry nz nc show ?thesis
            by (subst (asm) header_loop.simps) (simp add: check_completion_code_def)
        qed
      qed
    qed
  qed
qed




lemma send_get_sdr_le:
  "send_get_sdr req p = (r, p') \<Longrightarrow> length (sdr_rsps p') \<le> length (sdr_rsps p)"
  by (auto simp: send_get_sdr_def split: list.splits)

lemma body_loop_le:
  "length (sdr_rsps (snd (body_loop C L req0 mrl retry acc p))) \<le> length (sdr_rsps p)"
proof (induction C L req0 mrl retry acc p rule: body_loop.induct)
  case (1 C L req0 mrl retry acc p)
  show ?case
  proof (cases "retry = 0")
    case True
    then show ?thesis by (subst body_loop.simps) simp
  next
    case retry: False
    define x where "x = page_request L mrl req0"
    obtain xa y where s: "send_get_sdr x p = (xa, y)" by (cases "send_get_sdr x p")
    note y_le = send_get_sdr_le [OF s]
    show ?thesis
    proof (cases xa)
      case (Inl e)
      with retry s y_le show ?thesis
        by (subst body_loop.simps) (simp add: x_def [symmetric])
    next
      case (Inr rsp)
      consider (cant) "completion_code rsp = CC_CANT_RET_NUM_REQ_BYTES C"
        | (canceled) "completion_code rsp \<noteq> CC_CANT_RET_NUM_REQ_BYTES C"
            "completion_code rsp = CC_RES_CANCELED C"
        | (ce) "completion_code rsp \<noteq> CC_CANT_RET_NUM_REQ_BYTES C"
            "completion_code rsp \<noteq> CC_RES_CANCELED C" "completion_code rsp = 0xce"
        | (other) "completion_code rsp \<noteq> CC_CANT_RET_NUM_REQ_BYTES C"
            "completion_code rsp \<noteq> CC_RES_CANCELED C" "completion_code rsp \<noteq> 0xce"
        by blast
      then show ?thesis
      proof cases
        case cant
        have "length (sdr_rsps (snd (body_loop C L x (mrl - 4)
                (if mrl - 4 \<le> 0 then 0 else retry) acc y))) \<le> length (sdr_rsps y)"
          by (rule "1.IH"(1) [OF retry x_def s [symmetric] Inr cant refl refl])
        with retry s Inr cant y_le show ?thesis
          by (subst body_loop.simps) (simp add: x_def [symmetric] Let_def)
      next
        case canceled
        obtain q y' where g: "get_reservation_id y = (q, y')"
          by (cases "get_reservation_id y")
        note y'_eq = get_reservation_id_sdr_rsps [OF g]
        show ?thesis
        proof (cases q)
          case (Inl e)
          with retry s Inr canceled g y_le y'_eq show ?thesis
            by (subst body_loop.simps) (simp add: x_def [symmetric] Let_def)
        next
          case q: (Inr rid)
          have "length (sdr_rsps (snd (body_loop C L
                  (x\<lparr>req_reservation_id := rid, req_offset := 0\<rparr>) mrl (retry - 1) [] y')))
                \<le> length (sdr_rsps y')"
            by (rule "1.IH"(2) [OF retry x_def s [symmetric] Inr canceled g [symmetric] q])
          with retry s Inr canceled g q y_le y'_eq show ?thesis
            by (subst body_loop.simps) (simp add: x_def [symmetric] Let_def)
        qed
      next
        case ce
        have "length (sdr_rsps (snd (body_loop C L x mrl (retry - 1) acc y)))
                \<le> length (sdr_rsps y)"
          by (rule "1.IH"(3) [OF retry x_def s [symmetric] Inr ce])
        with retry s Inr ce y_le show ?thesis
          by (subst body_loop.simps) (simp add: x_def [symmetric] Let_def)
      next
        case other
        show ?thesis
        proof (cases "check_completion_code (completion_code rsp)")
          case (Inl e)
          with retry s Inr other y_le show ?thesis
            by (subst body_loop.simps) (simp add: x_def [symmetric] Let_def)
        next
          case ok: (Inr u)
          show ?thesis
          proof (cases "L \<le> int (length (acc @ record_data rsp))")
            case True
            with retry s Inr other ok y_le show ?thesis
              by (subst body_loop.simps) (simp add: x_def [symmetric] Let_def)
          next
            case False
            have "length (sdr_rsps (snd (body_loop C L
                    (x\<lparr>req_offset := int (length (acc @ record_data rsp))\<rparr>) mrl retry
                    (acc @ record_data rsp) y))) \<le> length (sdr_rsps y)"
              by (rule "1.IH"(4) [OF retry x_def s [symmetric] Inr other ok refl refl False])
            with retry s Inr other ok False y_le show ?thesis
              by (subst body_loop.simps) (simp add: x_def [symmetric] Let_def)
          qed
        qed
      qed
    qed
  qed
qed

lemma get_sdr_shorter:
  assumes "get_sdr C rid (Some resv) p = (Inr s, p')"
  shows "length (sdr_rsps p') < length (sdr_rsps p)"
proof -
  define req where "req = \<lparr>req_reservation_id = resv, req_record_id = rid,
    req_offset = 0, req_length = 5\<rparr>"
  obtain hr p2 where h: "header_loop C req 5 p = (hr, p2)"
    by (cases "header_loop C req 5 p")
  from assms h obtain rsp req' where hr: "hr = Inr (rsp, req')"
    by (auto simp: get_sdr_def req_def [symmetric] split: sum.splits)
  have 1: "length (sdr_rsps p2) < length (sdr_rsps p)"
    using h hr by (auto dest: header_loop_shorter)
  from assms h hr obtain L req'' bytes where
    "body_loop C L req'' 20 20 (record_data rsp) p2 = (Inr bytes, p')"
    by (auto simp: get_sdr_def req_def [symmetric] Let_def
        split: sum.splits option.splits prod.splits)
  with body_loop_le [of C L req'' 20 20 "record_data rsp" p2] 1 show ?thesis
    by simp
qed


text \<open>
  \<^verbatim>\<open>sdr_entries\<close> is a generator.  Its model returns the records it yields, in
  order, the exception that ended it (\<open>None\<close> when it ended by \<^verbatim>\<open>break\<close>), and the
  port.  Reading \<^verbatim>\<open>s.next_id\<close> of a record without the attribute raises
  \<^verbatim>\<open>AttributeError\<close>, after the record was yielded.
\<close>

function entries_loop ::
  "constants \<Rightarrow> int \<Rightarrow> int \<Rightarrow> port \<Rightarrow> sdr list \<times> error option \<times> port" where
  "entries_loop C reservation_id' record_id p =
     (case get_sdr C record_id (Some reservation_id') p of
        (Inl e, p') \<Rightarrow> ([], Some e, p')
      | (Inr s, p') \<Rightarrow>
          (case next_id s of
             None \<Rightarrow> ([s], Some AttributeError, p')
           | Some n \<Rightarrow>
               if n = 0xffff then ([s], None, p')
               else
                 (case entries_loop C reservation_id' n p' of
                    (ys, e, p'') \<Rightarrow> (s # ys, e, p''))))"
  by pat_completeness auto
termination
  by (relation "measure (\<lambda>(C, resv, rid, p). length (sdr_rsps p))")
    (auto dest!: get_sdr_shorter [OF sym])

declare entries_loop.simps [simp del]

definition sdr_entries :: "constants \<Rightarrow> port \<Rightarrow> sdr list \<times> error option \<times> port" where
  "sdr_entries C p =
     (case get_reservation_id p of
        (Inl e, p') \<Rightarrow> ([], Some e, p')
      | (Inr reservation_id', p') \<Rightarrow> entries_loop C reservation_id' 0 p')"

section \<open>\<^verbatim>\<open>get_sensor_reading\<close>\<close>

text \<open>
  The port of \<^verbatim>\<open>get_sensor_reading\<close> is the function from the sensor number of the
  request to the response.  \<^verbatim>\<open>states |= ...\<close> on \<^verbatim>\<open>None\<close> raises \<^verbatim>\<open>TypeError\<close>.
\<close>

definition get_sensor_reading ::
  "(int \<Rightarrow> sensor_reading_rsp) \<Rightarrow> int \<Rightarrow> error + (int option \<times> int option)" where
  "get_sensor_reading send_message sensor_number =
     (let rsp = send_message sensor_number in
      case check_completion_code (completion_code rsp) of
        Inl e \<Rightarrow> Inl e
      | Inr _ \<Rightarrow>
          (let reading = (if update_in_progress rsp then None else Some (sensor_reading rsp));
               states = (case states1 rsp of None \<Rightarrow> None | Some s1 \<Rightarrow> Some s1)
           in case states2 rsp of
                None \<Rightarrow> Inr (reading, states)
              | Some s2 \<Rightarrow>
                  (case states of
                     None \<Rightarrow> Inl TypeError
                   | Some s \<Rightarrow> Inr (reading, Some (s OR push_bit 8 s2)))))"

section \<open>Properties of the enumerator and of the sensor reading\<close>

lemma entries_loop_chain:
  assumes gets: "\<forall>k\<le>n. get_sdr C (ids k) (Some resv) (ps k) = (Inr (ss k), ps (Suc k))"
    and nexts: "\<forall>k<n. next_id (ss k) = Some (ids (Suc k)) \<and> ids (Suc k) \<noteq> 0xffff"
    and last: "next_id (ss n) = Some 0xffff"
  shows "k \<le> n \<Longrightarrow>
    entries_loop C resv (ids k) (ps k) = (map ss [k..<Suc n], None, ps (Suc n))"
proof (induction "n - k" arbitrary: k)
  case 0
  then have "k = n" by simp
  with gets last show ?case
    by (subst entries_loop.simps) simp
next
  case (Suc d)
  then have k: "k < n" and d: "d = n - Suc k" and le: "Suc k \<le> n" by simp_all
  have IH: "entries_loop C resv (ids (Suc k)) (ps (Suc k))
      = (map ss [Suc k..<Suc n], None, ps (Suc n))"
    by (rule Suc.hyps(1) [OF d le])
  have g: "get_sdr C (ids k) (Some resv) (ps k) = (Inr (ss k), ps (Suc k))"
    using gets k by simp
  have nx: "next_id (ss k) = Some (ids (Suc k))" "ids (Suc k) \<noteq> 0xffff"
    using nexts k by simp_all
  have "[k..<Suc n] = k # [Suc k..<Suc n]"
    using k by (simp add: upt_conv_Cons)
  with g nx IH show ?case
    by (subst entries_loop.simps) simp
qed

text \<open>
  C6.  \<^verbatim>\<open>sdr_entries\<close> acquires one reservation, reads record 0 under it, yields the
  record, reads the record named by the yielded record's \<^verbatim>\<open>next_id\<close> under the same
  reservation, and stops right after it has yielded the record whose \<^verbatim>\<open>next_id\<close> is
  0xFFFF.  Whenever the reads return records \<open>ss 0, ..., ss n\<close> that form such a chain
  from record 0, it yields exactly these records and ends without an exception.
\<close>

theorem sdr_entries_follows_chain:
  assumes "get_reservation_id p = (Inr resv, ps 0)"
    and "ids 0 = 0"
    and "\<forall>k\<le>n. get_sdr C (ids k) (Some resv) (ps k) = (Inr (ss k), ps (Suc k))"
    and "\<forall>k<n. next_id (ss k) = Some (ids (Suc k)) \<and> ids (Suc k) \<noteq> 0xffff"
    and "next_id (ss n) = Some 0xffff"
  shows "sdr_entries C p = (map ss [0..<Suc n], None, ps (Suc n))"
  using entries_loop_chain [OF assms(3-5), of 0] assms(1,2)
  by (simp add: sdr_entries_def)

text \<open>
  C7, as the claim states it, fails for a response that carries \<open>states2\<close> and no
  \<open>states1\<close>: the in-place or on \<^verbatim>\<open>None\<close> raises \<^verbatim>\<open>TypeError\<close>, and nothing is
  returned.
\<close>

theorem sensor_reading_only_states2:
  "completion_code \<lparr>completion_code = 0, sensor_reading = 0x20, update_in_progress = False,
                     states1 = None, states2 = Some 0x01\<rparr> = 0
   \<and> get_sensor_reading
        (\<lambda>n. \<lparr>completion_code = 0, sensor_reading = 0x20, update_in_progress = False,
               states1 = None, states2 = Some 0x01\<rparr>) 1
       = Inl TypeError"
  by (simp add: get_sensor_reading_def check_completion_code_def)

text \<open>
  C7, amended.  For every response with completion code 0 that carries \<open>states2\<close> only
  together with \<open>states1\<close>, \<^verbatim>\<open>get_sensor_reading\<close> returns the reading \<^verbatim>\<open>None\<close> exactly
  when the update is in progress and the byte \<open>sensor_reading\<close> otherwise, and the states
  \<open>states1 | (states2 << 8)\<close> when both masks are present, \<open>states1\<close> when it alone is
  present, and \<^verbatim>\<open>None\<close> when neither is.
\<close>

theorem get_sensor_reading_result:
  assumes "completion_code (send n) = 0"
    and "states1 (send n) = None \<longrightarrow> states2 (send n) = None"
  shows "get_sensor_reading send n =
     Inr (if update_in_progress (send n) then None else Some (sensor_reading (send n)),
          case (states1 (send n), states2 (send n)) of
            (Some s1, Some s2) \<Rightarrow> Some (s1 OR push_bit 8 s2)
          | (Some s1, None) \<Rightarrow> Some s1
          | (None, _) \<Rightarrow> None)"
  using assms
  by (auto simp: get_sensor_reading_def check_completion_code_def Let_def
      split: option.splits)

theorem get_sensor_reading_result_witness:
  "get_sensor_reading
      (\<lambda>n. \<lparr>completion_code = 0, sensor_reading = 0x20, update_in_progress = False,
             states1 = Some 0xc0, states2 = Some 0x81\<rparr>) 1
     = Inr (Some 0x20, Some 0x81c0)
   \<and> get_sensor_reading
      (\<lambda>n. \<lparr>completion_code = 0, sensor_reading = 0x20, update_in_progress = True,
             states1 = Some 0xc0, states2 = None\<rparr>) 1
     = Inr (None, Some 0xc0)
   \<and> get_sensor_reading
      (\<lambda>n. \<lparr>completion_code = 0, sensor_reading = 0x20, update_in_progress = False,
             states1 = None, states2 = None\<rparr>) 1
     = Inr (Some 0x20, None)"
  using get_sensor_reading_result [of
      "\<lambda>n. \<lparr>completion_code = 0, sensor_reading = 0x20, update_in_progress = False,
             states1 = Some 0xc0, states2 = Some 0x81\<rparr>" 1]
    get_sensor_reading_result [of
      "\<lambda>n. \<lparr>completion_code = 0, sensor_reading = 0x20, update_in_progress = True,
             states1 = Some 0xc0, states2 = None\<rparr>" 1]
    get_sensor_reading_result [of
      "\<lambda>n. \<lparr>completion_code = 0, sensor_reading = 0x20, update_in_progress = False,
             states1 = None, states2 = None\<rparr>" 1]
  by simp


text \<open>
  A port for a repository of two event-only records: record 0, whose successor is 5, and
  record 5, whose successor is 0xFFFF.  Each record is read by a header read and one
  body read.
\<close>

definition chain_port :: port where
  "chain_port =
     \<lparr>reserve_rsps = [Reserved 1],
      sdr_rsps = [Success 5 [0x00, 0x00, 0x51, 0x03, 0x00], Success 0 [],
                  Success 0xffff [0x05, 0x00, 0x51, 0x03, 0x00], Success 0 []],
      sent = []\<rparr>"

definition event_record :: "byte \<Rightarrow> int \<Rightarrow> sdr" where
  "event_record i n =
     \<lparr>cls = SdrEventOnlySensorRecord,
      common = Some \<lparr>data = [i, 0x00, 0x51, 0x03, 0x00], sdr_id = uint i, version = 0x51,
                      sdr_type = 3, lenght = 0\<rparr>,
      next_id = Some n, attrs = no_attrs\<rparr>"

lemma create_event_record:
  "n \<noteq> 0 \<Longrightarrow> create_sdr [i, 0x00, 0x51, 0x03, 0x00] (Some n) = Inr (event_record i n)"
  by (simp add: create_sdr_def SDR_TYPE_defs SdrEventOnlySensorRecord_init_def
      init_record_def SdrCommon_init_def from_response_5 event_record_def)

theorem sdr_entries_follows_chain_witness:
  "fst (sdr_entries ipmi_constants chain_port) = [event_record 0 5, event_record 5 0xffff]
   \<and> fst (snd (sdr_entries ipmi_constants chain_port)) = None
   \<and> sdr_rsps (snd (snd (sdr_entries ipmi_constants chain_port))) = []
   \<and> map req_record_id (sent (snd (snd (sdr_entries ipmi_constants chain_port))))
       = [0, 0, 5, 5]
   \<and> map req_reservation_id (sent (snd (snd (sdr_entries ipmi_constants chain_port))))
       = [1, 1, 1, 1]"
proof -
  define P0 where "P0 = chain_port\<lparr>reserve_rsps := []\<rparr>"
  define P1 where "P1 = snd (get_sdr ipmi_constants 0 (Some 1) P0)"
  define P2 where "P2 = snd (get_sdr ipmi_constants 5 (Some 1) P1)"
  define ps where "ps = (\<lambda>k::nat. if k = 0 then P0 else if k = 1 then P1 else P2)"
  define ids where "ids = (\<lambda>k::nat. if k = 0 then 0 else (5::int))"
  define ss where "ss = (\<lambda>k::nat. if k = 0 then event_record 0 5 else event_record 5 0xffff)"
  have r: "get_reservation_id chain_port = (Inr 1, ps 0)"
    by (simp add: get_reservation_id_def send_reserve_def chain_port_def Reserved_def
        check_completion_code_def ps_def P0_def)
  have g0: "get_sdr ipmi_constants 0 (Some 1) P0 =
      (Inr (event_record 0 5),
       \<lparr>reserve_rsps = [],
        sdr_rsps = [Success 0xffff [0x05, 0x00, 0x51, 0x03, 0x00], Success 0 []],
        sent = [\<lparr>req_reservation_id = 1, req_record_id = 0, req_offset = 0, req_length = 5\<rparr>,
                \<lparr>req_reservation_id = 1, req_record_id = 0, req_offset = 5, req_length = 0\<rparr>]\<rparr>)"
    by (subst get_sdr_two_reads [where h = "[0x00, 0x00, 0x51, 0x03, 0x00]" and c = "[]"
          and nid = 5 and n = 0
          and rs = "[Success 0xffff [0x05, 0x00, 0x51, 0x03, 0x00], Success 0 []]"])
      (simp_all add: ipmi_constants_def P0_def chain_port_def create_event_record
        page_request_def)
  then have P1: "P1 = \<lparr>reserve_rsps = [],
        sdr_rsps = [Success 0xffff [0x05, 0x00, 0x51, 0x03, 0x00], Success 0 []],
        sent = [\<lparr>req_reservation_id = 1, req_record_id = 0, req_offset = 0, req_length = 5\<rparr>,
                \<lparr>req_reservation_id = 1, req_record_id = 0, req_offset = 5, req_length = 0\<rparr>]\<rparr>"
    by (simp add: P1_def)
  have g1: "get_sdr ipmi_constants 5 (Some 1) P1 =
      (Inr (event_record 5 0xffff),
       \<lparr>reserve_rsps = [], sdr_rsps = [],
        sent = [\<lparr>req_reservation_id = 1, req_record_id = 0, req_offset = 0, req_length = 5\<rparr>,
                \<lparr>req_reservation_id = 1, req_record_id = 0, req_offset = 5, req_length = 0\<rparr>,
                \<lparr>req_reservation_id = 1, req_record_id = 5, req_offset = 0, req_length = 5\<rparr>,
                \<lparr>req_reservation_id = 1, req_record_id = 5, req_offset = 5, req_length = 0\<rparr>]\<rparr>)"
    unfolding P1
    by (subst get_sdr_two_reads [where h = "[0x05, 0x00, 0x51, 0x03, 0x00]" and c = "[]"
          and nid = "0xffff" and n = 0 and rs = "[]"])
      (simp_all add: ipmi_constants_def create_event_record page_request_def)
  then have P2: "P2 = \<lparr>reserve_rsps = [], sdr_rsps = [],
        sent = [\<lparr>req_reservation_id = 1, req_record_id = 0, req_offset = 0, req_length = 5\<rparr>,
                \<lparr>req_reservation_id = 1, req_record_id = 0, req_offset = 5, req_length = 0\<rparr>,
                \<lparr>req_reservation_id = 1, req_record_id = 5, req_offset = 0, req_length = 5\<rparr>,
                \<lparr>req_reservation_id = 1, req_record_id = 5, req_offset = 5, req_length = 0\<rparr>]\<rparr>"
    by (simp add: P2_def)
  have gets: "\<forall>k\<le>1. get_sdr ipmi_constants (ids k) (Some 1) (ps k) = (Inr (ss k), ps (Suc k))"
    using g0 g1 by (auto simp: le_Suc_eq ids_def ps_def ss_def P1 P2)
  have nexts: "\<forall>k<1. next_id (ss k) = Some (ids (Suc k)) \<and> ids (Suc k) \<noteq> 0xffff"
    by (simp add: ss_def ids_def event_record_def)
  have last: "next_id (ss 1) = Some 0xffff"
    by (simp add: ss_def event_record_def)
  have "sdr_entries ipmi_constants chain_port = (map ss [0..<Suc 1], None, ps (Suc 1))"
    by (rule sdr_entries_follows_chain [OF r _ gets nexts last]) (simp add: ids_def)
  then show ?thesis
    by (simp add: ss_def ps_def P2 upt_rec)
qed

end
